theory Spec2Isabelle
  imports Main "HOL-Library.Word"
begin

section \<open>The xlsx producer of xlnt: package assembly and part dispatch\<close>

text \<open>
  A shallow embedding of \<^verbatim>\<open>source/detail/xlsx_producer.cpp\<close>. The producer walks the
  manifest of a workbook, binds one XML serializer per part, lets a generator chosen by
  the relationship type write into it, and hands each finished buffer to the ZIP
  archive. The XML serializer and the archive are libraries: a serializer's stream is
  modelled as the list of calls made on it, the archive as the list of
  \<^verbatim>\<open>write_string\<close> calls in the order they happen.
\<close>

subsection \<open>Paths\<close>

datatype path = Path (path_string: string)

text \<open>
  Modelled from the spec: the class \<^verbatim>\<open>xlnt::path\<close> (\<^verbatim>\<open>xlnt/utils/path.hpp\<close>) is not part
  of the source at hand. The spec names \<open>parent_dir\<close>, \<open>filename\<close> and the join of a
  directory with a relative path; a path is absolute when it starts with a slash, the
  parent of the root is the root, and joining onto the empty path adds no separator.
\<close>

definition is_absolute :: "path \<Rightarrow> bool" where
  "is_absolute p = (case path_string p of [] \<Rightarrow> False | c # _ \<Rightarrow> c = CHR ''/'')"

definition filename :: "path \<Rightarrow> string" where
  "filename p = rev (takeWhile (\<lambda>c. c \<noteq> CHR ''/'') (rev (path_string p)))"

definition parent :: "path \<Rightarrow> path" where
  "parent p =
     (let d = rev (drop 1 (dropWhile (\<lambda>c. c \<noteq> CHR ''/'') (rev (path_string p))))
      in if d = [] \<and> is_absolute p then Path ''/'' else Path d)"

definition append_path :: "path \<Rightarrow> string \<Rightarrow> path" where
  "append_path p s =
     (let b = path_string p
      in if b = [] then Path s
         else if last b = CHR ''/'' then Path (b @ s)
         else Path (b @ ''/'' @ s))"

text \<open>
  Modelled from the spec: \<^verbatim>\<open>path::resolve\<close> is not part of the source at hand either.
  The content types part names a part by its path from the root: an absolute path is
  kept, a relative one is joined onto the base.
\<close>

definition resolve :: "path \<Rightarrow> path \<Rightarrow> path" where
  "resolve p base_path = (if is_absolute p then p else append_path base_path (path_string p))"

subsection \<open>Relationships and the manifest\<close>

text \<open>
  Modelled from the spec: the classes \<^verbatim>\<open>relationship\<close> and \<^verbatim>\<open>manifest\<close> are declared in
  headers that are not part of the source at hand. A relationship is the edge the spec
  describes (id, type, source, target, target mode); the records hold what the producer
  reads through the accessors it calls. Of the enumerators of \<^verbatim>\<open>relationship::type\<close>, those
  that the two dispatch switches name are constructors; every other enumerator of the
  type is \<open>other_type\<close> with its name.
\<close>

datatype relationship_type =
    core_properties | extended_properties | custom_properties | office_document
  | thumbnail
  | calculation_chain | chartsheet | connections | custom_xml_mappings | dialogsheet
  | external_workbook_references | metadata | pivot_table | shared_string_table
  | shared_workbook_revision_headers | styles | theme | volatile_dependencies
  | worksheet
  | other_type string

datatype target_mode = internal | external

record relationship =
  rel_id :: string
  rel_type :: relationship_type
  rel_source :: path
  rel_target :: path
  rel_target_mode :: target_mode

record manifest =
  extensions_with_default_types :: "string list"
  default_type :: "string \<Rightarrow> string"
  parts_with_overriden_types :: "path list"
  override_type :: "path \<Rightarrow> string"
  relationships :: "path \<Rightarrow> relationship list"

text \<open>
  Modelled from the spec: \<^verbatim>\<open>manifest::get_relationship\<close> is not part of the source at
  hand. It looks a relationship of a part up by its id; the lookup of an id the part
  does not have fails (the caller below turns that into \<open>key_not_found\<close>).
\<close>

definition get_relationship :: "manifest \<Rightarrow> path \<Rightarrow> string \<Rightarrow> relationship option" where
  "get_relationship m part i = find (\<lambda>r. rel_id r = i) (relationships m part)"

subsection \<open>The workbook\<close>

text \<open>
  Modelled from the spec: the classes \<^verbatim>\<open>workbook\<close>, \<^verbatim>\<open>worksheet\<close> and \<^verbatim>\<open>page_setup\<close> and
  the enumeration \<^verbatim>\<open>sheet_state\<close> are declared in headers that are not part of the source
  at hand. The records hold what the producer reads of them; a sheet is visible, hidden
  or very hidden, and that state is part of its page setup, which a sheet may lack.
\<close>

datatype sheet_state = visible | hidden | very_hidden

record page_setup =
  sheet_state :: sheet_state

record worksheet =
  ws_title :: string
  ws_id :: nat
  ws_page_setup :: "page_setup option"
  ws_has_auto_filter :: bool
  ws_x14ac_enabled :: bool

record workbook =
  worksheets :: "worksheet list"
  wb_manifest :: manifest
  wb_thumbnail :: "8 word list"
  wb_application :: string
  wb_doc_security :: int
  wb_scale_crop :: bool
  wb_x15_enabled :: bool
  short_bools :: bool

definition has_page_setup :: "worksheet \<Rightarrow> bool" where
  "has_page_setup ws = (ws_page_setup ws \<noteq> None)"

text \<open>
  Modelled from the spec: \<^verbatim>\<open>ws.get_page_setup().get_sheet_state()\<close> and
  \<^verbatim>\<open>ws.get_sheet_state()\<close> are not part of the source at hand; both read the state kept
  in the page setup. The source calls them only after \<^verbatim>\<open>has_page_setup()\<close>; without a
  page setup the model answers \<open>visible\<close>.
\<close>

definition get_sheet_state :: "worksheet \<Rightarrow> sheet_state" where
  "get_sheet_state ws = (case ws_page_setup ws of None \<Rightarrow> visible | Some ps \<Rightarrow> sheet_state ps)"

subsection \<open>Serializer streams and the archive\<close>

datatype xml_event =
    Start_element "string option" string
  | End_element
  | End_element_of string string
  | Namespace_decl string string
  | Attribute "string option" string string
  | Attribute_type string relationship_type
  | Element string string
  | Element_empty string

datatype content = Stream_str "xml_event list" | Bytes "8 word list"

datatype error = no_visible_worksheets | key_not_found | end_iterator_dereferenced

text \<open>
  The state of the producer. \<open>destination\<close> is the archive: the \<^verbatim>\<open>write_string\<close> calls
  so far, oldest first. The source binds the member pointer \<^verbatim>\<open>serializer_\<close> to a
  serializer that lives on the stack of the caller, over a stream that is a local of
  the caller too: \<open>streams\<close> is the store of these streams, \<open>serializer_ptr\<close> the address of
  the one bound at the moment, \<open>next_stream\<close> the next free address.
  \<open>sheet_title_rel_id_map\<close> is the map of the workbook's implementation object, which
  \<^verbatim>\<open>operator[]\<close> may extend; its iteration order is the order of the list.
\<close>

record producer =
  destination :: "(path \<times> content) list"
  streams :: "nat \<Rightarrow> xml_event list"
  serializer_ptr :: nat
  next_stream :: nat
  sheet_title_rel_id_map :: "(string \<times> string) list"

definition write_string :: "content \<Rightarrow> path \<Rightarrow> producer \<Rightarrow> producer" where
  "write_string c p s = s\<lparr>destination := destination s @ [(p, c)]\<rparr>"

text \<open>
  \<^verbatim>\<open>std::ostringstream stream; xml::serializer ser(stream, name); serializer_ = &ser;\<close>
  The address of the fresh stream is returned for the caller's local variable.
\<close>

definition bind_serializer :: "producer \<Rightarrow> nat \<times> producer" where
  "bind_serializer s =
     (next_stream s,
      s\<lparr>streams := (streams s)(next_stream s := []),
        serializer_ptr := next_stream s,
        next_stream := Suc (next_stream s)\<rparr>)"

text \<open>One call on \<^verbatim>\<open>serializer()\<close>, that is on \<^verbatim>\<open>*serializer_\<close>.\<close>

definition emit :: "xml_event \<Rightarrow> producer \<Rightarrow> producer" where
  "emit e s = s\<lparr>streams := (streams s)(serializer_ptr s := streams s (serializer_ptr s) @ [e])\<rparr>"

fun emit_all :: "xml_event list \<Rightarrow> producer \<Rightarrow> producer" where
  "emit_all [] s = s"
| "emit_all (e # es) s = emit_all es (emit e s)"

subsection \<open>Numbers and booleans as text\<close>

definition digit_char :: "nat \<Rightarrow> char" where
  "digit_char d = char_of (48 + d)"

fun to_string_nat :: "nat \<Rightarrow> string" where
  "to_string_nat n =
     (if n < 10 then [digit_char n] else to_string_nat (n div 10) @ [digit_char (n mod 10)])"

declare to_string_nat.simps [simp del]

definition to_string_int :: "int \<Rightarrow> string" where
  "to_string_int i =
     (if i < 0 then CHR ''-'' # to_string_nat (nat (- i)) else to_string_nat (nat i))"

definition write_bool :: "workbook \<Rightarrow> bool \<Rightarrow> string" where
  "write_bool wb boolean =
     (if short_bools wb then (if boolean then ''1'' else ''0'')
      else (if boolean then ''true'' else ''false''))"

subsection \<open>Namespaces\<close>

definition content_types_xmlns :: string where
  "content_types_xmlns = ''http://schemas.openxmlformats.org/package/2006/content-types''"

definition spreadsheetml_xmlns :: string where
  "spreadsheetml_xmlns = ''http://schemas.openxmlformats.org/spreadsheetml/2006/main''"

definition document_relationships_xmlns :: string where
  "document_relationships_xmlns =
     ''http://schemas.openxmlformats.org/officeDocument/2006/relationships''"

text \<open>
  Modelled from the spec: \<^verbatim>\<open>constants::get_namespace("relationships")\<close> is not part of
  the source at hand; the spec calls it the package relationships namespace.
\<close>

definition relationships_xmlns :: string where
  "relationships_xmlns = ''http://schemas.openxmlformats.org/package/2006/relationships''"

subsection \<open>Package parts\<close>

text \<open>The two loops of \<^verbatim>\<open>write_content_types\<close>, over the local serializer's stream.\<close>

fun write_defaults :: "manifest \<Rightarrow> string list \<Rightarrow> xml_event list \<Rightarrow> xml_event list" where
  "write_defaults m [] out = out"
| "write_defaults m (extension # extensions) out =
     write_defaults m extensions
       (out @ [Start_element (Some content_types_xmlns) ''Default'',
               Attribute None ''Extension'' extension,
               Attribute None ''ContentType'' (default_type m extension),
               End_element_of content_types_xmlns ''Default''])"

fun write_overrides :: "manifest \<Rightarrow> path list \<Rightarrow> xml_event list \<Rightarrow> xml_event list" where
  "write_overrides m [] out = out"
| "write_overrides m (part # parts) out =
     write_overrides m parts
       (out @ [Start_element (Some content_types_xmlns) ''Override'',
               Attribute None ''PartName'' (path_string (resolve part (Path ''/''))),
               Attribute None ''ContentType'' (override_type m part),
               End_element_of content_types_xmlns ''Override''])"

definition content_types_stream :: "workbook \<Rightarrow> xml_event list" where
  "content_types_stream wb =
     (let m = wb_manifest wb;
          out0 = [Start_element (Some content_types_xmlns) ''Types'',
                  Namespace_decl content_types_xmlns ''''];
          out1 = write_defaults m (extensions_with_default_types m) out0;
          out2 = write_overrides m (parts_with_overriden_types m) out1
      in out2 @ [End_element_of content_types_xmlns ''Types''])"

definition write_content_types :: "workbook \<Rightarrow> producer \<Rightarrow> producer" where
  "write_content_types wb s =
     write_string (Stream_str (content_types_stream wb)) (Path ''[Content_Types].xml'') s"

text \<open>\<^verbatim>\<open>write_relationships\<close>: the path of the side file, the loop, the write.\<close>

definition rels_path :: "path \<Rightarrow> path" where
  "rels_path part =
     (let parent0 = parent part;
          parent1 = (if is_absolute parent0 then Path (drop 1 (path_string parent0))
                     else parent0)
      in Path (path_string
           (append_path (append_path parent1 ''_rels'') (filename part @ ''.rels''))))"

fun write_relationship_elements :: "relationship list \<Rightarrow> xml_event list \<Rightarrow> xml_event list" where
  "write_relationship_elements [] out = out"
| "write_relationship_elements (r # rs) out =
     write_relationship_elements rs
       (out @ [Start_element (Some relationships_xmlns) ''Relationship'',
               Attribute None ''Id'' (rel_id r),
               Attribute_type ''Type'' (rel_type r),
               Attribute None ''Target'' (path_string (rel_target r))]
            @ (if rel_target_mode r = external
               then [Attribute None ''TargetMode'' ''External''] else [])
            @ [End_element_of relationships_xmlns ''Relationship''])"

definition relationships_stream :: "relationship list \<Rightarrow> xml_event list" where
  "relationships_stream rels =
     write_relationship_elements rels
       [Start_element (Some relationships_xmlns) ''Relationships'',
        Namespace_decl relationships_xmlns '''']
     @ [End_element_of relationships_xmlns ''Relationships'']"

definition write_relationships :: "relationship list \<Rightarrow> path \<Rightarrow> producer \<Rightarrow> producer" where
  "write_relationships rels part s =
     write_string (Stream_str (relationships_stream rels)) (rels_path part) s"

definition write_extended_properties :: "workbook \<Rightarrow> relationship \<Rightarrow> producer \<Rightarrow> producer" where
  "write_extended_properties wb rel s =
     emit_all
       [Start_element None ''Properties'',
        Namespace_decl
          ''http://schemas.openxmlformats.org/officeDocument/2006/extended-properties''
          ''xmlns'',
        Namespace_decl
          ''http://schemas.openxmlformats.org/officeDocument/2006/docPropsVTypes'' ''vt'',
        Element ''Application'' (wb_application wb),
        Element ''DocSecurity'' (to_string_int (wb_doc_security wb)),
        Element ''ScaleCrop'' (if wb_scale_crop wb then ''true'' else ''false'')] s"

definition write_core_properties :: "workbook \<Rightarrow> relationship \<Rightarrow> producer \<Rightarrow> producer" where
  "write_core_properties wb rel s = s"

definition write_custom_properties :: "workbook \<Rightarrow> relationship \<Rightarrow> producer \<Rightarrow> producer" where
  "write_custom_properties wb rel s = emit (Element_empty ''Properties'') s"

definition write_thumbnail :: "workbook \<Rightarrow> relationship \<Rightarrow> producer \<Rightarrow> producer" where
  "write_thumbnail wb rel s = write_string (Bytes (wb_thumbnail wb)) (rel_target rel) s"

subsection \<open>Targets of the workbook's relationships\<close>

definition write_calculation_chain :: "relationship \<Rightarrow> producer \<Rightarrow> producer" where
  "write_calculation_chain rel s = emit (Start_element None ''calcChain'') s"

definition write_chartsheet :: "relationship \<Rightarrow> producer \<Rightarrow> producer" where
  "write_chartsheet rel s = emit (Start_element None ''chartsheet'') s"

definition write_connections :: "relationship \<Rightarrow> producer \<Rightarrow> producer" where
  "write_connections rel s = emit (Start_element None ''connections'') s"

definition write_custom_xml_mappings :: "relationship \<Rightarrow> producer \<Rightarrow> producer" where
  "write_custom_xml_mappings rel s = emit (Start_element None ''MapInfo'') s"

definition write_dialogsheet :: "relationship \<Rightarrow> producer \<Rightarrow> producer" where
  "write_dialogsheet rel s = emit (Start_element None ''dialogsheet'') s"

definition write_external_workbook_references :: "relationship \<Rightarrow> producer \<Rightarrow> producer" where
  "write_external_workbook_references rel s = emit (Start_element None ''externalLink'') s"

definition write_metadata :: "relationship \<Rightarrow> producer \<Rightarrow> producer" where
  "write_metadata rel s = emit (Start_element None ''metadata'') s"

definition write_pivot_table :: "relationship \<Rightarrow> producer \<Rightarrow> producer" where
  "write_pivot_table rel s = emit (Start_element None ''pivotTableDefinition'') s"

definition write_shared_string_table :: "relationship \<Rightarrow> producer \<Rightarrow> producer" where
  "write_shared_string_table rel s = emit (Start_element None ''sst'') s"

definition write_shared_workbook_revision_headers :: "relationship \<Rightarrow> producer \<Rightarrow> producer" where
  "write_shared_workbook_revision_headers rel s = emit (Start_element None ''headers'') s"

definition write_styles :: "relationship \<Rightarrow> producer \<Rightarrow> producer" where
  "write_styles rel s = emit (Start_element None ''styleSheet'') s"

definition write_theme :: "relationship \<Rightarrow> producer \<Rightarrow> producer" where
  "write_theme rel s = emit (Start_element None ''a:theme'') s"

definition write_volatile_dependencies :: "relationship \<Rightarrow> producer \<Rightarrow> producer" where
  "write_volatile_dependencies rel s = emit (Start_element None ''volTypes'') s"

text \<open>
  Modelled from the spec: \<^verbatim>\<open>workbook::get_sheet_by_title\<close> is not part of the source at
  hand; a title no sheet has is \<open>key_not_found\<close> in the caller below.
\<close>

definition get_sheet_by_title :: "workbook \<Rightarrow> string \<Rightarrow> worksheet option" where
  "get_sheet_by_title wb t = find (\<lambda>ws. ws_title ws = t) (worksheets wb)"

text \<open>
  \<^verbatim>\<open>write_worksheet\<close>. The title is the key of the first entry of the map whose value is
  the relationship's id; the source dereferences the iterator \<^verbatim>\<open>find_if\<close> returns without
  comparing it with \<^verbatim>\<open>end()\<close>, which the model reports as \<open>end_iterator_dereferenced\<close>.
  Columns, rows and cells are inside comments in the source: the sheet data element is
  opened and closed with nothing between.
\<close>

definition write_worksheet :: "workbook \<Rightarrow> relationship \<Rightarrow> producer \<Rightarrow> error option \<times> producer" where
  "write_worksheet wb rel s =
     (case find (\<lambda>p. snd p = rel_id rel) (sheet_title_rel_id_map s) of
        None \<Rightarrow> (Some end_iterator_dereferenced, s)
      | Some p \<Rightarrow>
          (case get_sheet_by_title wb (fst p) of
             None \<Rightarrow> (Some key_not_found, s)
           | Some ws \<Rightarrow>
               (None,
                emit_all
                  ([Start_element (Some spreadsheetml_xmlns) ''worksheet'',
                    Namespace_decl spreadsheetml_xmlns '''',
                    Namespace_decl document_relationships_xmlns ''r'']
                   @ (if ws_x14ac_enabled ws
                      then [Namespace_decl
                              ''http://schemas.openxmlformats.org/markup-compatibility/2006''
                              ''mc'',
                            Attribute None ''mc:Ignorable'' ''x14ac'',
                            Namespace_decl
                              ''http://schemas.microsoft.com/office/spreadsheetml/2009/9/ac''
                              ''x14ac'']
                      else [])
                   @ [Start_element (Some spreadsheetml_xmlns) ''sheetData'',
                      End_element,
                      End_element]) s)))"

text \<open>The switch of \<^verbatim>\<open>write_workbook\<close> over the type of a relationship of the workbook.\<close>

fun workbook_dispatch ::
  "workbook \<Rightarrow> relationship_type \<Rightarrow> relationship \<Rightarrow> producer \<Rightarrow> error option \<times> producer" where
  "workbook_dispatch wb calculation_chain rel s = (None, write_calculation_chain rel s)"
| "workbook_dispatch wb chartsheet rel s = (None, write_chartsheet rel s)"
| "workbook_dispatch wb connections rel s = (None, write_connections rel s)"
| "workbook_dispatch wb custom_xml_mappings rel s = (None, write_custom_xml_mappings rel s)"
| "workbook_dispatch wb dialogsheet rel s = (None, write_dialogsheet rel s)"
| "workbook_dispatch wb external_workbook_references rel s =
     (None, write_external_workbook_references rel s)"
| "workbook_dispatch wb metadata rel s = (None, write_metadata rel s)"
| "workbook_dispatch wb pivot_table rel s = (None, write_pivot_table rel s)"
| "workbook_dispatch wb shared_string_table rel s = (None, write_shared_string_table rel s)"
| "workbook_dispatch wb shared_workbook_revision_headers rel s =
     (None, write_shared_workbook_revision_headers rel s)"
| "workbook_dispatch wb styles rel s = (None, write_styles rel s)"
| "workbook_dispatch wb theme rel s = (None, write_theme rel s)"
| "workbook_dispatch wb volatile_dependencies rel s = (None, write_volatile_dependencies rel s)"
| "workbook_dispatch wb worksheet rel s = write_worksheet wb rel s"
| "workbook_dispatch wb _ rel s = (None, s)"

definition append_paths :: "path \<Rightarrow> path \<Rightarrow> path" where
  "append_paths p q = append_path p (path_string q)"

definition archive_path :: "relationship \<Rightarrow> path" where
  "archive_path child_rel = append_paths (parent (rel_source child_rel)) (rel_target child_rel)"

text \<open>The loop over the workbook's relationships, lines 426 to 496.\<close>

fun write_workbook_children ::
  "workbook \<Rightarrow> relationship list \<Rightarrow> producer \<Rightarrow> error option \<times> producer" where
  "write_workbook_children wb [] s = (None, s)"
| "write_workbook_children wb (child_rel # rels) s =
     (case bind_serializer s of
        (child_stream, s1) \<Rightarrow>
          (case workbook_dispatch wb (rel_type child_rel) child_rel s1 of
             (Some e, s2) \<Rightarrow> (Some e, s2)
           | (None, s2) \<Rightarrow>
               write_workbook_children wb rels
                 (write_string (Stream_str (streams s2 child_stream))
                    (archive_path child_rel) s2)))"

subsection \<open>The workbook part\<close>

text \<open>The first loop of \<^verbatim>\<open>write_workbook\<close>: \<^verbatim>\<open>num_visible\<close> and \<^verbatim>\<open>any_defined_names\<close>.\<close>

fun visibility_loop :: "worksheet list \<Rightarrow> nat \<times> bool \<Rightarrow> nat \<times> bool" where
  "visibility_loop [] acc = acc"
| "visibility_loop (ws # wss) (num_visible, any_defined_names) =
     visibility_loop wss
       (if \<not> has_page_setup ws \<or> get_sheet_state ws = visible
        then num_visible + 1 else num_visible,
        if ws_has_auto_filter ws then True else any_defined_names)"

text \<open>
  \<^verbatim>\<open>sheet_title_rel_id_map_[title]\<close>: \<^verbatim>\<open>operator[]\<close> of an unordered map answers the value
  of the key and, for a key the map does not have, inserts the key with the empty
  string first.
\<close>

definition rel_id_of_title :: "string \<Rightarrow> producer \<Rightarrow> string \<times> producer" where
  "rel_id_of_title t s =
     (case map_of (sheet_title_rel_id_map s) t of
        Some i \<Rightarrow> (i, s)
      | None \<Rightarrow> ('''', s\<lparr>sheet_title_rel_id_map := sheet_title_rel_id_map s @ [(t, '''')]\<rparr>))"

text \<open>The loop that writes one \<open>sheet\<close> element per worksheet, lines 351 to 380.\<close>

fun write_sheets ::
  "workbook \<Rightarrow> relationship \<Rightarrow> worksheet list \<Rightarrow> producer \<Rightarrow> error option \<times> producer" where
  "write_sheets wb rel [] s = (None, s)"
| "write_sheets wb rel (ws # wss) s =
     (case rel_id_of_title (ws_title ws) s of
        (sheet_rel_id, s1) \<Rightarrow>
          (case get_relationship (wb_manifest wb) (rel_source rel) sheet_rel_id of
             None \<Rightarrow> (Some key_not_found, s1)
           | Some sheet_rel \<Rightarrow>
               (let s2 = emit (Start_element (Some spreadsheetml_xmlns) ''sheet'') s1;
                    s3 = emit (Attribute None ''name'' (ws_title ws)) s2;
                    s4 = emit (Attribute None ''sheetId'' (to_string_nat (ws_id ws))) s3;
                    s5 = (if has_page_setup ws \<and> get_sheet_state ws = hidden
                          then emit (Attribute None ''state'' ''hidden'') s4 else s4);
                    s6 = emit (Attribute (Some document_relationships_xmlns) ''id''
                                 sheet_rel_id) s5;
                    s7 = emit (End_element_of spreadsheetml_xmlns ''sheet'') s6
                in write_sheets wb rel wss s7)))"

definition workbook_header :: "workbook \<Rightarrow> xml_event list" where
  "workbook_header wb =
     [Start_element (Some spreadsheetml_xmlns) ''workbook'',
      Namespace_decl spreadsheetml_xmlns '''',
      Namespace_decl document_relationships_xmlns ''r'']
     @ (if wb_x15_enabled wb
        then [Namespace_decl ''http://schemas.openxmlformats.org/markup-compatibility/2006''
                ''mc'',
              Attribute None ''mc:Ignorable'' ''x15'',
              Namespace_decl
                ''http://schemas.microsoft.com/office/spreadsheetml/2010/11/main'' ''x15'']
        else [])
     @ [Start_element (Some spreadsheetml_xmlns) ''sheets'']"

definition write_workbook :: "workbook \<Rightarrow> relationship \<Rightarrow> producer \<Rightarrow> error option \<times> producer" where
  "write_workbook wb rel s =
     (case visibility_loop (worksheets wb) (0, False) of
        (num_visible, any_defined_names) \<Rightarrow>
          if num_visible = 0 then (Some no_visible_worksheets, s)
          else
            (case write_sheets wb rel (worksheets wb) (emit_all (workbook_header wb) s) of
               (Some e, s1) \<Rightarrow> (Some e, s1)
             | (None, s1) \<Rightarrow>
                 (let s2 = emit (End_element_of spreadsheetml_xmlns ''sheets'') s1;
                      s3 = emit (End_element_of spreadsheetml_xmlns ''workbook'') s2;
                      workbook_rels = relationships (wb_manifest wb) (rel_target rel);
                      s4 = write_relationships workbook_rels (rel_target rel) s3
                  in write_workbook_children wb workbook_rels s4)))"

subsection \<open>The package\<close>

text \<open>
  The switch of \<^verbatim>\<open>populate_archive\<close> over the type of a relationship of the package
  root. The second component is the local \<^verbatim>\<open>write_document\<close>.
\<close>

fun root_dispatch ::
  "workbook \<Rightarrow> relationship_type \<Rightarrow> relationship \<Rightarrow> producer
     \<Rightarrow> error option \<times> bool \<times> producer" where
  "root_dispatch wb core_properties rel s = (None, True, write_core_properties wb rel s)"
| "root_dispatch wb extended_properties rel s =
     (None, True, write_extended_properties wb rel s)"
| "root_dispatch wb custom_properties rel s = (None, True, write_custom_properties wb rel s)"
| "root_dispatch wb office_document rel s =
     (case write_workbook wb rel s of (e, s1) \<Rightarrow> (e, True, s1))"
| "root_dispatch wb thumbnail rel s = (None, False, write_thumbnail wb rel s)"
| "root_dispatch wb _ rel s = (None, True, s)"

text \<open>One turn of the loop of \<^verbatim>\<open>populate_archive\<close>, lines 82 to 121, and the loop.\<close>

definition populate_step :: "workbook \<Rightarrow> relationship \<Rightarrow> producer \<Rightarrow> error option \<times> producer" where
  "populate_step wb rel s =
     (case bind_serializer s of
        (serializer_stream, s1) \<Rightarrow>
          (case root_dispatch wb (rel_type rel) rel s1 of
             (Some e, write_document, s2) \<Rightarrow> (Some e, s2)
           | (None, write_document, s2) \<Rightarrow>
               (None,
                if write_document
                then write_string (Stream_str (streams s2 serializer_stream)) (rel_target rel) s2
                else s2)))"

fun populate_loop :: "workbook \<Rightarrow> relationship list \<Rightarrow> producer \<Rightarrow> error option \<times> producer" where
  "populate_loop wb [] s = (None, s)"
| "populate_loop wb (rel # rels) s =
     (case populate_step wb rel s of
        (Some e, s1) \<Rightarrow> (Some e, s1)
      | (None, s1) \<Rightarrow> populate_loop wb rels s1)"

definition populate_archive :: "workbook \<Rightarrow> producer \<Rightarrow> error option \<times> producer" where
  "populate_archive wb s =
     (let s1 = write_content_types wb s;
          root_rels = relationships (wb_manifest wb) (Path ''/'');
          s2 = write_relationships root_rels (Path ''/'') s1
      in populate_loop wb root_rels s2)"

subsection \<open>String cells\<close>

text \<open>
  The branch of \<^verbatim>\<open>write_worksheet\<close> for a cell of data type string, lines 1614 to
  1655. In the source at hand the whole loop over rows and cells stands inside a
  comment, so \<open>write_worksheet\<close> above never reaches it; it is embedded here as the
  source text has it, for the statements about string cells. That text builds the cell
  node through a document tree: \<^verbatim>\<open>append_attribute(n).set_value(v)\<close> and
  \<^verbatim>\<open>append_child(n).text().set(v)\<close>.
\<close>

datatype xml_node =
  Node (node_name: string) (node_attributes: "(string \<times> string) list") (node_text: string)
    (node_children: "xml_node list")

definition append_attribute :: "string \<Rightarrow> string \<Rightarrow> xml_node \<Rightarrow> xml_node" where
  "append_attribute n v node =
     Node (node_name node) (node_attributes node @ [(n, v)]) (node_text node)
       (node_children node)"

definition append_child :: "xml_node \<Rightarrow> xml_node \<Rightarrow> xml_node" where
  "append_child child node =
     Node (node_name node) (node_attributes node) (node_text node)
       (node_children node @ [child])"

text \<open>
  What the branch reads of a cell: \<^verbatim>\<open>has_formula()\<close>, \<^verbatim>\<open>get_formula()\<close>, \<^verbatim>\<open>to_string()\<close>,
  \<^verbatim>\<open>get_value<text>()\<close> and \<^verbatim>\<open>get_value<std::string>()\<close>. The type of rich text is a
  parameter.
\<close>

record 't cell =
  cell_has_formula :: bool
  cell_formula :: string
  cell_to_string :: string
  cell_text :: 't
  cell_string :: string

text \<open>\<^verbatim>\<open>static_cast<int>(i)\<close> for a \<^verbatim>\<open>std::size_t\<close>: the low 32 bits, read as signed.\<close>

definition static_cast_int :: "nat \<Rightarrow> int" where
  "static_cast_int i = sint (word_of_nat i :: 32 word)"

text \<open>The search loop; \<open>i\<close> is the loop counter, the result is \<^verbatim>\<open>match_index\<close>.\<close>

fun match_loop :: "'t list \<Rightarrow> 't \<Rightarrow> nat \<Rightarrow> int" where
  "match_loop [] v i = - 1"
| "match_loop (x # xs) v i = (if x = v then static_cast_int i else match_loop xs v (Suc i))"

definition write_string_cell :: "'t list \<Rightarrow> 't cell \<Rightarrow> xml_node \<Rightarrow> xml_node" where
  "write_string_cell shared_strings c cell_node =
     (if cell_has_formula c
      then append_child (Node ''v'' [] (cell_to_string c) [])
             (append_child (Node ''f'' [] (cell_formula c) [])
                (append_attribute ''t'' ''str'' cell_node))
      else
        (let match_index = match_loop shared_strings (cell_text c) 0
         in if match_index = - 1
            then (if cell_string c = []
                  then append_attribute ''t'' ''s'' cell_node
                  else append_child (Node ''is'' [] [] [Node ''t'' [] (cell_string c) []])
                         (append_attribute ''t'' ''inlineStr'' cell_node))
            else append_child (Node ''v'' [] (to_string_int match_index) [])
                   (append_attribute ''t'' ''s'' cell_node)))"

subsection \<open>The protection of a cell format\<close>

text \<open>
  The branch of \<^verbatim>\<open>write_styles\<close> for a format whose protection is applied, lines 938 to
  946; like the cells, it stands inside a comment in the source at hand and is
  embedded as the source text has it. It renders one boolean through \<open>write_bool\<close> and two
  with literals.
\<close>

record protection =
  prot_locked :: bool
  prot_hidden :: bool

definition write_format_protection ::
  "workbook \<Rightarrow> bool \<Rightarrow> protection \<Rightarrow> xml_node \<Rightarrow> xml_node" where
  "write_format_protection wb protection_applied current_protection xf_node =
     (if protection_applied
      then append_child
             (append_attribute ''hidden''
                (if prot_hidden current_protection then ''true'' else ''false'')
                (append_attribute ''locked''
                   (if prot_locked current_protection then ''true'' else ''false'')
                   (Node ''protection'' [] [] [])))
             (append_attribute ''applyProtection'' (write_bool wb True) xf_node)
      else xf_node)"

subsection \<open>What the parts are expected to hold\<close>

text \<open>
  The entries of the content types part and the children of the \<open>sheets\<close> element,
  written as functions of one manifest entry or one worksheet; the loops above are
  compared with them.
\<close>

definition default_element :: "manifest \<Rightarrow> string \<Rightarrow> xml_event list" where
  "default_element m extension =
     [Start_element (Some content_types_xmlns) ''Default'',
      Attribute None ''Extension'' extension,
      Attribute None ''ContentType'' (default_type m extension),
      End_element_of content_types_xmlns ''Default'']"

definition override_element :: "manifest \<Rightarrow> path \<Rightarrow> xml_event list" where
  "override_element m part =
     [Start_element (Some content_types_xmlns) ''Override'',
      Attribute None ''PartName'' (path_string (resolve part (Path ''/''))),
      Attribute None ''ContentType'' (override_type m part),
      End_element_of content_types_xmlns ''Override'']"

definition rel_id_or_empty :: "(string \<times> string) list \<Rightarrow> string \<Rightarrow> string" where
  "rel_id_or_empty m t = (case map_of m t of Some i \<Rightarrow> i | None \<Rightarrow> '''')"

definition state_attribute :: "worksheet \<Rightarrow> xml_event list" where
  "state_attribute ws =
     (case ws_page_setup ws of
        None \<Rightarrow> []
      | Some ps \<Rightarrow>
          (case sheet_state ps of
             hidden \<Rightarrow> [Attribute None ''state'' ''hidden'']
           | visible \<Rightarrow> []
           | very_hidden \<Rightarrow> []))"

definition sheet_element :: "(string \<times> string) list \<Rightarrow> worksheet \<Rightarrow> xml_event list" where
  "sheet_element m ws =
     [Start_element (Some spreadsheetml_xmlns) ''sheet'',
      Attribute None ''name'' (ws_title ws),
      Attribute None ''sheetId'' (to_string_nat (ws_id ws))]
     @ state_attribute ws
     @ [Attribute (Some document_relationships_xmlns) ''id'' (rel_id_or_empty m (ws_title ws)),
        End_element_of spreadsheetml_xmlns ''sheet'']"

text \<open>
  The side file of a part in the words of the spec: the parent directory, \<open>_rels\<close>, and
  the file name with \<open>.rels\<close> appended.
\<close>

definition spec_rels_path :: "path \<Rightarrow> path" where
  "spec_rels_path part =
     append_path (append_path (parent part) ''_rels'') (filename part @ ''.rels'')"

text \<open>Whether a relationship type has a case of its own in the two switches.\<close>

definition root_case :: "relationship_type \<Rightarrow> bool" where
  "root_case t =
     (t \<in> {core_properties, extended_properties, custom_properties, office_document,
            thumbnail})"

definition workbook_case :: "relationship_type \<Rightarrow> bool" where
  "workbook_case t =
     (t \<in> {calculation_chain, chartsheet, connections, custom_xml_mappings, dialogsheet,
            external_workbook_references, metadata, pivot_table, shared_string_table,
            shared_workbook_revision_headers, styles, theme, volatile_dependencies,
            worksheet})"

subsection \<open>A small package\<close>

text \<open>
  A producer that has written nothing, over a given title map, and a workbook of two
  sheets with the relationships a saved workbook has; variations of it hide the sheets,
  empty the manifest or add a relationship of a type no switch names.
\<close>

definition initial_producer :: "(string \<times> string) list \<Rightarrow> producer" where
  "initial_producer m =
     \<lparr>destination = [], streams = (\<lambda>_. []), serializer_ptr = 0, next_stream = 0,
      sheet_title_rel_id_map = m\<rparr>"

definition workbook_rel :: relationship where
  "workbook_rel =
     \<lparr>rel_id = ''rId1'', rel_type = office_document, rel_source = Path ''/'',
      rel_target = Path ''xl/workbook.xml'', rel_target_mode = internal\<rparr>"

definition thumbnail_rel :: relationship where
  "thumbnail_rel =
     \<lparr>rel_id = ''rId2'', rel_type = thumbnail, rel_source = Path ''/'',
      rel_target = Path ''docProps/thumbnail.jpeg'', rel_target_mode = internal\<rparr>"

definition app_rel :: relationship where
  "app_rel =
     \<lparr>rel_id = ''rId3'', rel_type = extended_properties, rel_source = Path ''/'',
      rel_target = Path ''docProps/app.xml'', rel_target_mode = internal\<rparr>"

definition printer_rel :: relationship where
  "printer_rel =
     \<lparr>rel_id = ''rId4'', rel_type = other_type ''printer_settings'', rel_source = Path ''/'',
      rel_target = Path ''xl/printerSettings1.bin'', rel_target_mode = internal\<rparr>"

definition sheet1_rel :: relationship where
  "sheet1_rel =
     \<lparr>rel_id = ''rId1'', rel_type = worksheet, rel_source = Path ''/xl/workbook.xml'',
      rel_target = Path ''worksheets/sheet1.xml'', rel_target_mode = internal\<rparr>"

definition sheet2_rel :: relationship where
  "sheet2_rel =
     \<lparr>rel_id = ''rId2'', rel_type = worksheet, rel_source = Path ''/xl/workbook.xml'',
      rel_target = Path ''worksheets/sheet2.xml'', rel_target_mode = internal\<rparr>"

definition image_rel :: relationship where
  "image_rel =
     \<lparr>rel_id = ''rId3'', rel_type = other_type ''image'', rel_source = Path ''/xl/workbook.xml'',
      rel_target = Path ''media/image1.png'', rel_target_mode = internal\<rparr>"

definition small_manifest :: "relationship list \<Rightarrow> relationship list \<Rightarrow> manifest" where
  "small_manifest root_rels workbook_rels =
     \<lparr>extensions_with_default_types = [''rels'', ''xml''],
      default_type = (\<lambda>e. if e = ''rels''
                           then ''application/vnd.openxmlformats-package.relationships+xml''
                           else ''application/xml''),
      parts_with_overriden_types = [Path ''xl/workbook.xml''],
      override_type = (\<lambda>p.
        ''application/vnd.openxmlformats-officedocument.spreadsheetml.sheet.main+xml''),
      relationships = (\<lambda>p. if p = Path ''/'' then root_rels
                             else if p = Path ''xl/workbook.xml'' then workbook_rels
                             else [])\<rparr>"

definition sheet :: "string \<Rightarrow> nat \<Rightarrow> page_setup option \<Rightarrow> worksheet" where
  "sheet t i ps =
     \<lparr>ws_title = t, ws_id = i, ws_page_setup = ps, ws_has_auto_filter = False,
      ws_x14ac_enabled = False\<rparr>"

definition small_workbook :: "worksheet list \<Rightarrow> manifest \<Rightarrow> workbook" where
  "small_workbook sheets m =
     \<lparr>worksheets = sheets, wb_manifest = m, wb_thumbnail = [255, 216, 255],
      wb_application = ''Microsoft Excel'', wb_doc_security = 0, wb_scale_crop = True,
      wb_x15_enabled = False, short_bools = True\<rparr>"

definition title_map :: "(string \<times> string) list" where
  "title_map = [(''Sheet1'', ''rId1''), (''Sheet2'', ''rId2'')]"

definition visible_sheets :: "worksheet list" where
  "visible_sheets =
     [sheet ''Sheet1'' 1 None, sheet ''Sheet2'' 2 (Some \<lparr>sheet_state = very_hidden\<rparr>)]"

definition hidden_sheets :: "worksheet list" where
  "hidden_sheets =
     [sheet ''Sheet1'' 1 (Some \<lparr>sheet_state = hidden\<rparr>),
      sheet ''Sheet2'' 2 (Some \<lparr>sheet_state = very_hidden\<rparr>)]"

section \<open>Properties\<close>

subsection \<open>What a run of serializer calls changes\<close>

lemma destination_emit_all: "destination (emit_all es s) = destination s"
  by (induction es arbitrary: s) (simp_all add: emit_def)

lemma streams_emit_all:
  "streams (emit_all es s) = (streams s)(serializer_ptr s := streams s (serializer_ptr s) @ es)"
proof (induction es arbitrary: s)
  case Nil
  show ?case by simp
next
  case (Cons e es)
  show ?case by (simp add: Cons.IH emit_def fun_eq_iff)
qed

lemma serializer_ptr_emit_all: "serializer_ptr (emit_all es s) = serializer_ptr s"
  by (induction es arbitrary: s) (simp_all add: emit_def)

lemma next_stream_emit_all: "next_stream (emit_all es s) = next_stream s"
  by (induction es arbitrary: s) (simp_all add: emit_def)

lemma title_map_emit_all: "sheet_title_rel_id_map (emit_all es s) = sheet_title_rel_id_map s"
  by (induction es arbitrary: s) (simp_all add: emit_def)

lemma emit_as_emit_all: "emit e s = emit_all [e] s"
  by simp

subsection \<open>The thumbnail\<close>



subsection \<open>The dispatch over a relationship of the workbook\<close>

lemma ex_emit_all_self: "\<exists>es. s = emit_all es s"
  by (rule exI [of _ "[]"]) simp

lemma ex_emit_all_emit: "\<exists>es. emit e s = emit_all es s"
  by (rule exI [of _ "[e]"]) simp

lemma ex_emit_all_emit_all: "\<exists>es. emit_all xs s = emit_all es s"
  by (rule exI [of _ xs]) simp

lemmas workbook_part_writers =
  write_calculation_chain_def write_chartsheet_def write_connections_def
  write_custom_xml_mappings_def write_dialogsheet_def
  write_external_workbook_references_def write_metadata_def write_pivot_table_def
  write_shared_string_table_def write_shared_workbook_revision_headers_def
  write_styles_def write_theme_def write_volatile_dependencies_def

lemma write_worksheet_emits: "\<exists>es. snd (write_worksheet wb rel s) = emit_all es s"
  by (simp add: write_worksheet_def ex_emit_all_self ex_emit_all_emit_all
      del: emit_all.simps split: option.splits)

lemma workbook_dispatch_emits: "\<exists>es. snd (workbook_dispatch wb t rel s) = emit_all es s"
  by (cases t)
    (simp_all add: workbook_part_writers ex_emit_all_self ex_emit_all_emit
      write_worksheet_emits)

lemma write_worksheet_fault:
  "fst (write_worksheet wb rel s) \<noteq> Some no_visible_worksheets"
  by (simp add: write_worksheet_def split: option.splits)

lemma workbook_dispatch_fault:
  "fst (workbook_dispatch wb t rel s) \<noteq> Some no_visible_worksheets"
  by (cases t) (simp_all add: write_worksheet_fault)

lemma workbook_dispatch_default:
  "\<not> workbook_case t \<Longrightarrow> workbook_dispatch wb t rel s = (None, s)"
  by (cases t) (simp_all add: workbook_case_def)


subsection \<open>The loop over the workbook's relationships\<close>

lemma bind_serializer_eq:
  "bind_serializer s = (next_stream s, snd (bind_serializer s))"
  by (simp add: bind_serializer_def)

lemma bind_serializer_fields:
  "streams (snd (bind_serializer s)) = (streams s)(next_stream s := [])"
  "serializer_ptr (snd (bind_serializer s)) = next_stream s"
  "next_stream (snd (bind_serializer s)) = Suc (next_stream s)"
  "destination (snd (bind_serializer s)) = destination s"
  "sheet_title_rel_id_map (snd (bind_serializer s)) = sheet_title_rel_id_map s"
  by (simp_all add: bind_serializer_def)

lemma write_string_fields:
  "streams (write_string c p s) = streams s"
  "serializer_ptr (write_string c p s) = serializer_ptr s"
  "next_stream (write_string c p s) = next_stream s"
  "destination (write_string c p s) = destination s @ [(p, c)]"
  "sheet_title_rel_id_map (write_string c p s) = sheet_title_rel_id_map s"
  by (simp_all add: write_string_def)

lemma children_step:
  assumes "workbook_dispatch wb (rel_type child_rel) child_rel (snd (bind_serializer s))
           = (e, emit_all es (snd (bind_serializer s)))"
  shows "write_workbook_children wb (child_rel # rels) s =
         (case e of
            Some x \<Rightarrow> (Some x, emit_all es (snd (bind_serializer s)))
          | None \<Rightarrow>
              write_workbook_children wb rels
                (write_string (Stream_str es) (archive_path child_rel)
                   (emit_all es (snd (bind_serializer s)))))"
proof -
  have "streams (emit_all es (snd (bind_serializer s))) (next_stream s) = es"
    by (simp add: streams_emit_all bind_serializer_fields)
  then show ?thesis
    using assms
    by (subst write_workbook_children.simps, subst bind_serializer_eq)
      (simp split: option.splits del: emit_all.simps)
qed

lemma children_summary:
  "(\<forall>p < next_stream s.
      streams (snd (write_workbook_children wb rels s)) p = streams s p) \<and>
   (\<exists>ys. destination (snd (write_workbook_children wb rels s)) = destination s @ ys) \<and>
   fst (write_workbook_children wb rels s) \<noteq> Some no_visible_worksheets"
proof (induction rels arbitrary: s)
  case Nil
  show ?case by simp
next
  case (Cons child_rel rels)
  let ?s1 = "snd (bind_serializer s)"
  obtain es where es:
    "snd (workbook_dispatch wb (rel_type child_rel) child_rel ?s1) = emit_all es ?s1"
    using workbook_dispatch_emits by blast
  obtain e where e: "fst (workbook_dispatch wb (rel_type child_rel) child_rel ?s1) = e"
    by simp
  have d: "workbook_dispatch wb (rel_type child_rel) child_rel ?s1 = (e, emit_all es ?s1)"
    using es e by (metis prod.collapse)
  have fault: "e \<noteq> Some no_visible_worksheets"
    using workbook_dispatch_fault [of wb "rel_type child_rel" child_rel ?s1] e by simp
  note step = children_step [OF d, of rels]
  show ?case
  proof (cases e)
    case (Some x)
    then show ?thesis
      using fault
      by (simp add: step streams_emit_all destination_emit_all bind_serializer_fields
          del: write_workbook_children.simps emit_all.simps)
  next
    case None
    let ?s3 = "write_string (Stream_str es) (archive_path child_rel) (emit_all es ?s1)"
    have ih: "(\<forall>p < next_stream ?s3.
      streams (snd (write_workbook_children wb rels ?s3)) p = streams ?s3 p) \<and>
      (\<exists>ys. destination (snd (write_workbook_children wb rels ?s3)) = destination ?s3 @ ys) \<and>
      fst (write_workbook_children wb rels ?s3) \<noteq> Some no_visible_worksheets"
      by (rule Cons.IH)
    have n3: "next_stream ?s3 = Suc (next_stream s)"
      by (simp add: write_string_fields next_stream_emit_all bind_serializer_fields)
    have st3: "\<And>p. p < next_stream s \<Longrightarrow> streams ?s3 p = streams s p"
      by (simp add: write_string_fields streams_emit_all bind_serializer_fields)
    have d3: "destination ?s3 = destination s @ [(archive_path child_rel, Stream_str es)]"
      by (simp add: write_string_fields destination_emit_all bind_serializer_fields)
    show ?thesis
      using ih
      by (auto simp add: step None n3 st3 d3
          simp del: write_workbook_children.simps emit_all.simps)
  qed
qed


subsection \<open>The loop over the worksheets\<close>

lemma rel_id_or_empty_insert:
  "map_of m t = None \<Longrightarrow> rel_id_or_empty (m @ [(t, [])]) t' = rel_id_or_empty m t'"
  by (simp add: rel_id_or_empty_def map_add_def split: option.splits)

lemma sheet_element_insert:
  "map_of m t = None \<Longrightarrow> sheet_element (m @ [(t, [])]) ws = sheet_element m ws"
  by (simp add: sheet_element_def rel_id_or_empty_insert)

lemma rel_id_of_title_fst:
  "fst (rel_id_of_title t s) = rel_id_or_empty (sheet_title_rel_id_map s) t"
  by (simp add: rel_id_of_title_def rel_id_or_empty_def split: option.splits)

lemma rel_id_of_title_fields:
  "streams (snd (rel_id_of_title t s)) = streams s"
  "serializer_ptr (snd (rel_id_of_title t s)) = serializer_ptr s"
  "next_stream (snd (rel_id_of_title t s)) = next_stream s"
  "destination (snd (rel_id_of_title t s)) = destination s"
  by (simp_all add: rel_id_of_title_def split: option.splits)

lemma rel_id_of_title_sheet_element:
  "sheet_element (sheet_title_rel_id_map (snd (rel_id_of_title t s))) ws =
   sheet_element (sheet_title_rel_id_map s) ws"
  by (simp add: rel_id_of_title_def sheet_element_insert split: option.splits)

lemma write_sheets_Cons:
  "write_sheets wb rel (ws # wss) s =
     (case get_relationship (wb_manifest wb) (rel_source rel)
             (rel_id_or_empty (sheet_title_rel_id_map s) (ws_title ws)) of
        None \<Rightarrow> (Some key_not_found, snd (rel_id_of_title (ws_title ws) s))
      | Some r \<Rightarrow>
          write_sheets wb rel wss
            (emit_all (sheet_element (sheet_title_rel_id_map s) ws)
               (snd (rel_id_of_title (ws_title ws) s))))"
proof -
  obtain i s1 where r: "rel_id_of_title (ws_title ws) s = (i, s1)"
    by (cases "rel_id_of_title (ws_title ws) s")
  have i: "i = rel_id_or_empty (sheet_title_rel_id_map s) (ws_title ws)"
    using rel_id_of_title_fst [of "ws_title ws" s] r by simp
  show ?thesis
    by (simp add: r i [symmetric] sheet_element_def state_attribute_def has_page_setup_def
        get_sheet_state_def Let_def split: option.splits sheet_state.splits)
qed

lemma write_sheets_result:
  "write_sheets wb rel wss s = (None, s') \<Longrightarrow>
     streams s' =
       (streams s)(serializer_ptr s := streams s (serializer_ptr s)
          @ concat (map (sheet_element (sheet_title_rel_id_map s)) wss)) \<and>
     destination s' = destination s \<and> serializer_ptr s' = serializer_ptr s \<and>
     next_stream s' = next_stream s"
proof (induction wss arbitrary: s)
  case Nil
  then show ?case by simp
next
  case (Cons ws wss)
  let ?s1 = "snd (rel_id_of_title (ws_title ws) s)"
  let ?s7 = "emit_all (sheet_element (sheet_title_rel_id_map s) ws) ?s1"
  from Cons.prems have rest: "write_sheets wb rel wss ?s7 = (None, s')"
    by (simp add: write_sheets_Cons split: option.splits del: write_sheets.simps)
  have m: "\<And>w. sheet_element (sheet_title_rel_id_map ?s7) w
              = sheet_element (sheet_title_rel_id_map s) w"
    by (simp add: title_map_emit_all rel_id_of_title_sheet_element)
  show ?case
    using Cons.IH [OF rest]
    by (simp add: m streams_emit_all serializer_ptr_emit_all next_stream_emit_all
        destination_emit_all rel_id_of_title_fields fun_eq_iff)
qed

lemma write_sheets_fault:
  "fst (write_sheets wb rel wss s) \<noteq> Some no_visible_worksheets"
proof (induction wss arbitrary: s)
  case Nil
  show ?case by simp
next
  case (Cons ws wss)
  show ?case
    using Cons.IH
    by (simp add: write_sheets_Cons split: option.splits del: write_sheets.simps)
qed


subsection \<open>The workbook part\<close>

lemma visibility_loop_fst:
  "fst (visibility_loop wss (n, b)) =
     n + length (filter (\<lambda>ws. \<not> has_page_setup ws \<or> get_sheet_state ws = visible) wss)"
  by (induction wss arbitrary: n b) simp_all

lemma num_visible_zero:
  "fst (visibility_loop wss (0, False)) = 0 \<longleftrightarrow>
     (\<forall>ws \<in> set wss. has_page_setup ws \<and> get_sheet_state ws \<noteq> visible)"
  by (auto simp add: visibility_loop_fst filter_empty_conv)

lemma write_workbook_unfold:
  "write_workbook wb rel s =
     (if fst (visibility_loop (worksheets wb) (0, False)) = 0
      then (Some no_visible_worksheets, s)
      else
        (case write_sheets wb rel (worksheets wb) (emit_all (workbook_header wb) s) of
           (Some e, s1) \<Rightarrow> (Some e, s1)
         | (None, s1) \<Rightarrow>
             write_workbook_children wb (relationships (wb_manifest wb) (rel_target rel))
               (write_relationships (relationships (wb_manifest wb) (rel_target rel))
                  (rel_target rel)
                  (emit_all [End_element_of spreadsheetml_xmlns ''sheets'',
                             End_element_of spreadsheetml_xmlns ''workbook''] s1))))"
  by (simp add: write_workbook_def Let_def split: prod.splits option.splits)

lemma write_workbook_fault_iff:
  "fst (write_workbook wb rel s) = Some no_visible_worksheets \<longleftrightarrow>
     (\<forall>ws \<in> set (worksheets wb). has_page_setup ws \<and> get_sheet_state ws \<noteq> visible)"
proof (cases "fst (visibility_loop (worksheets wb) (0, False)) = 0")
  case True
  then show ?thesis
    using num_visible_zero [of "worksheets wb"] by (simp add: write_workbook_unfold)
next
  case False
  obtain e s1 where ws:
    "write_sheets wb rel (worksheets wb) (emit_all (workbook_header wb) s) = (e, s1)"
    by (cases "write_sheets wb rel (worksheets wb) (emit_all (workbook_header wb) s)")
  have e: "e \<noteq> Some no_visible_worksheets"
    using write_sheets_fault [of wb rel "worksheets wb" "emit_all (workbook_header wb) s"] ws
    by simp
  have "fst (write_workbook wb rel s) \<noteq> Some no_visible_worksheets"
    using False e children_summary
    by (cases e) (simp_all add: write_workbook_unfold ws del: emit_all.simps)
  then show ?thesis
    using False num_visible_zero [of "worksheets wb"] by simp
qed

lemma write_workbook_result:
  assumes ret: "write_workbook wb rel s = (None, s')"
    and bound: "serializer_ptr s < next_stream s"
  shows "streams s' (serializer_ptr s) =
           streams s (serializer_ptr s) @ workbook_header wb
           @ concat (map (sheet_element (sheet_title_rel_id_map s)) (worksheets wb))
           @ [End_element_of spreadsheetml_xmlns ''sheets'',
              End_element_of spreadsheetml_xmlns ''workbook'']"
    and "\<exists>ys. destination s' =
           destination s
           @ [(rels_path (rel_target rel),
               Stream_str (relationships_stream
                 (relationships (wb_manifest wb) (rel_target rel))))]
           @ ys"
proof -
  let ?s0 = "emit_all (workbook_header wb) s"
  let ?rels = "relationships (wb_manifest wb) (rel_target rel)"
  obtain e s1 where ws: "write_sheets wb rel (worksheets wb) ?s0 = (e, s1)"
    by (cases "write_sheets wb rel (worksheets wb) ?s0")
  let ?s3 = "emit_all [End_element_of spreadsheetml_xmlns ''sheets'',
                       End_element_of spreadsheetml_xmlns ''workbook''] s1"
  let ?s4 = "write_relationships ?rels (rel_target rel) ?s3"
  have vis: "fst (visibility_loop (worksheets wb) (0, False)) \<noteq> 0"
    using ret by (auto simp add: write_workbook_unfold split: if_splits)
  have e: "e = None"
    using ret vis by (cases e) (simp_all add: write_workbook_unfold ws del: emit_all.simps)
  have s': "s' = snd (write_workbook_children wb ?rels ?s4)"
    using ret vis by (simp add: write_workbook_unfold ws e del: emit_all.simps)
  note sheets = write_sheets_result [OF ws [unfolded e]]
  have ptr1: "serializer_ptr s1 = serializer_ptr s" and next1: "next_stream s1 = next_stream s"
    and dest1: "destination s1 = destination s"
    using sheets by (simp_all add: serializer_ptr_emit_all next_stream_emit_all
        destination_emit_all)
  have st1: "streams s1 (serializer_ptr s) =
      streams s (serializer_ptr s) @ workbook_header wb
      @ concat (map (sheet_element (sheet_title_rel_id_map s)) (worksheets wb))"
    using sheets by (simp add: streams_emit_all serializer_ptr_emit_all title_map_emit_all)
  have next4: "next_stream ?s4 = next_stream s"
    by (simp add: write_relationships_def write_string_fields next_stream_emit_all next1
        del: emit_all.simps)
  have st4: "streams ?s4 (serializer_ptr s) =
      streams s1 (serializer_ptr s)
      @ [End_element_of spreadsheetml_xmlns ''sheets'',
         End_element_of spreadsheetml_xmlns ''workbook'']"
    by (simp add: write_relationships_def write_string_fields streams_emit_all ptr1
        del: emit_all.simps)
  have dest4: "destination ?s4 =
      destination s @ [(rels_path (rel_target rel), Stream_str (relationships_stream ?rels))]"
    by (simp add: write_relationships_def write_string_fields destination_emit_all dest1
        del: emit_all.simps)
  note children = children_summary [of ?s4 wb ?rels]
  have "streams s' (serializer_ptr s) = streams ?s4 (serializer_ptr s)"
    using children bound unfolding s' next4 by blast
  then show "streams s' (serializer_ptr s) =
           streams s (serializer_ptr s) @ workbook_header wb
           @ concat (map (sheet_element (sheet_title_rel_id_map s)) (worksheets wb))
           @ [End_element_of spreadsheetml_xmlns ''sheets'',
              End_element_of spreadsheetml_xmlns ''workbook'']"
    by (simp add: st4 st1 del: emit_all.simps)
  show "\<exists>ys. destination s' =
           destination s
           @ [(rels_path (rel_target rel), Stream_str (relationships_stream ?rels))]
           @ ys"
    using children unfolding s' dest4 by auto
qed


subsection \<open>The loop over the relationships of the package root\<close>

lemma populate_step_office_document:
  assumes "rel_type rel = office_document"
  shows "populate_step wb rel s =
     (case write_workbook wb rel (snd (bind_serializer s)) of
        (Some e, s2) \<Rightarrow> (Some e, s2)
      | (None, s2) \<Rightarrow>
          (None, write_string (Stream_str (streams s2 (next_stream s))) (rel_target rel) s2))"
  unfolding populate_step_def
  by (subst bind_serializer_eq) (simp add: assms split: prod.splits option.splits)

lemma populate_step_other:
  assumes "rel_type rel \<noteq> office_document"
  shows "fst (populate_step wb rel s) = None"
  using assms unfolding populate_step_def
  by (subst bind_serializer_eq) (cases "rel_type rel"; simp)

lemma populate_step_fault_iff:
  "fst (populate_step wb rel s) = Some no_visible_worksheets \<longleftrightarrow>
     rel_type rel = office_document \<and>
     (\<forall>ws \<in> set (worksheets wb). has_page_setup ws \<and> get_sheet_state ws \<noteq> visible)"
proof (cases "rel_type rel = office_document")
  case False
  then show ?thesis by (simp add: populate_step_other)
next
  case True
  obtain e s2 where w: "write_workbook wb rel (snd (bind_serializer s)) = (e, s2)"
    by (cases "write_workbook wb rel (snd (bind_serializer s))")
  have "fst (populate_step wb rel s) = e"
    by (cases e) (simp_all add: populate_step_office_document [OF True] w)
  then show ?thesis
    using write_workbook_fault_iff [of wb rel "snd (bind_serializer s)"] w True by simp
qed

lemma populate_loop_fault:
  assumes "\<forall>ws \<in> set (worksheets wb). has_page_setup ws \<and> get_sheet_state ws \<noteq> visible"
  shows "\<exists>r \<in> set rels. rel_type r = office_document \<Longrightarrow>
         fst (populate_loop wb rels s) = Some no_visible_worksheets"
proof (induction rels arbitrary: s)
  case Nil
  then show ?case by simp
next
  case (Cons rel rels)
  obtain e s1 where p: "populate_step wb rel s = (e, s1)"
    by (cases "populate_step wb rel s")
  show ?case
  proof (cases "rel_type rel = office_document")
    case True
    then have "e = Some no_visible_worksheets"
      using populate_step_fault_iff [of wb rel s] assms p by simp
    then show ?thesis by (simp add: p)
  next
    case False
    then have "e = None"
      using populate_step_other [of rel wb s] p by simp
    moreover have "\<exists>r \<in> set rels. rel_type r = office_document"
      using Cons.prems False by auto
    ultimately show ?thesis
      using Cons.IH by (simp add: p)
  qed
qed

lemma populate_loop_passes:
  assumes "\<exists>ws \<in> set (worksheets wb). \<not> has_page_setup ws \<or> get_sheet_state ws = visible"
  shows "fst (populate_loop wb rels s) \<noteq> Some no_visible_worksheets"
proof (induction rels arbitrary: s)
  case Nil
  show ?case by simp
next
  case (Cons rel rels)
  obtain e s1 where p: "populate_step wb rel s = (e, s1)"
    by (cases "populate_step wb rel s")
  have "e \<noteq> Some no_visible_worksheets"
    using populate_step_fault_iff [of wb rel s] assms p by auto
  then show ?case
    using Cons.IH by (cases e) (simp_all add: p)
qed

subsection \<open>Visible worksheets\<close>

text \<open>
  Claim C1. A sheet counts as visible unless it has a page setup whose sheet state is
  hidden or very hidden. When no sheet of the workbook is visible, \<open>write_workbook\<close>
  throws \<open>no_visible_worksheets\<close> and leaves the producer as it found it: nothing has been
  written to the serializer of the workbook part or to the archive. The assembly of a
  package whose root has an office document relationship then ends with that fault.
  When at least one sheet is visible, neither \<open>write_workbook\<close> nor the assembly ends
  with that fault: the check passes.
\<close>

theorem no_visible_worksheets_fault:
  "((\<forall>ws \<in> set (worksheets wb).
       has_page_setup ws \<and> (get_sheet_state ws = hidden \<or> get_sheet_state ws = very_hidden)) \<longrightarrow>
      write_workbook wb rel s = (Some no_visible_worksheets, s) \<and>
      ((\<exists>r \<in> set (relationships (wb_manifest wb) (Path ''/'')). rel_type r = office_document) \<longrightarrow>
         fst (populate_archive wb s) = Some no_visible_worksheets)) \<and>
   ((\<exists>ws \<in> set (worksheets wb). \<not> has_page_setup ws \<or> get_sheet_state ws = visible) \<longrightarrow>
      fst (write_workbook wb rel s) \<noteq> Some no_visible_worksheets \<and>
      fst (populate_archive wb s) \<noteq> Some no_visible_worksheets)"
proof (intro conjI impI)
  assume h: "\<forall>ws \<in> set (worksheets wb).
       has_page_setup ws \<and> (get_sheet_state ws = hidden \<or> get_sheet_state ws = very_hidden)"
  then have nv: "\<forall>ws \<in> set (worksheets wb). has_page_setup ws \<and> get_sheet_state ws \<noteq> visible"
    by auto
  then show "write_workbook wb rel s = (Some no_visible_worksheets, s)"
    using num_visible_zero [of "worksheets wb"] by (simp add: write_workbook_unfold)
  assume "\<exists>r \<in> set (relationships (wb_manifest wb) (Path ''/'')). rel_type r = office_document"
  then show "fst (populate_archive wb s) = Some no_visible_worksheets"
    using populate_loop_fault [OF nv] by (simp add: populate_archive_def Let_def)
next
  assume v: "\<exists>ws \<in> set (worksheets wb). \<not> has_page_setup ws \<or> get_sheet_state ws = visible"
  then show "fst (write_workbook wb rel s) \<noteq> Some no_visible_worksheets"
    using write_workbook_fault_iff [of wb rel s] by auto
  show "fst (populate_archive wb s) \<noteq> Some no_visible_worksheets"
    using populate_loop_passes [OF v] by (simp add: populate_archive_def Let_def)
qed


theorem no_visible_worksheets_fault_witness:
  "list_all
     (\<lambda>ws. has_page_setup ws \<and> (get_sheet_state ws = hidden \<or> get_sheet_state ws = very_hidden))
     (worksheets (small_workbook hidden_sheets
        (small_manifest [thumbnail_rel, workbook_rel] [sheet1_rel, sheet2_rel]))) \<and>
   (\<exists>r \<in> set (relationships (wb_manifest (small_workbook hidden_sheets
        (small_manifest [thumbnail_rel, workbook_rel] [sheet1_rel, sheet2_rel]))) (Path ''/'')).
      rel_type r = office_document) \<and>
   write_workbook (small_workbook hidden_sheets
        (small_manifest [thumbnail_rel, workbook_rel] [sheet1_rel, sheet2_rel]))
      workbook_rel (initial_producer title_map)
     = (Some no_visible_worksheets, initial_producer title_map) \<and>
   fst (populate_archive (small_workbook hidden_sheets
        (small_manifest [thumbnail_rel, workbook_rel] [sheet1_rel, sheet2_rel]))
      (initial_producer title_map)) = Some no_visible_worksheets \<and>
   (\<exists>ws \<in> set (worksheets (small_workbook visible_sheets
        (small_manifest [thumbnail_rel, workbook_rel] [sheet1_rel, sheet2_rel]))).
      \<not> has_page_setup ws \<or> get_sheet_state ws = visible) \<and>
   fst (write_workbook (small_workbook visible_sheets
        (small_manifest [thumbnail_rel, workbook_rel] [sheet1_rel, sheet2_rel]))
      workbook_rel (initial_producer title_map)) \<noteq> Some no_visible_worksheets \<and>
   fst (populate_archive (small_workbook visible_sheets
        (small_manifest [thumbnail_rel, workbook_rel] [sheet1_rel, sheet2_rel]))
      (initial_producer title_map)) \<noteq> Some no_visible_worksheets"
proof -
  let ?m = "small_manifest [thumbnail_rel, workbook_rel] [sheet1_rel, sheet2_rel]"
  have a: "\<forall>ws \<in> set (worksheets (small_workbook hidden_sheets ?m)).
      has_page_setup ws \<and> (get_sheet_state ws = hidden \<or> get_sheet_state ws = very_hidden)"
    by (simp add: small_workbook_def hidden_sheets_def sheet_def has_page_setup_def
        get_sheet_state_def)
  have c: "\<exists>r \<in> set (relationships (wb_manifest (small_workbook hidden_sheets ?m)) (Path ''/'')).
      rel_type r = office_document"
    by (simp add: small_workbook_def small_manifest_def workbook_rel_def)
  have e: "\<exists>ws \<in> set (worksheets (small_workbook visible_sheets ?m)).
      \<not> has_page_setup ws \<or> get_sheet_state ws = visible"
    by (simp add: small_workbook_def visible_sheets_def sheet_def has_page_setup_def)
  have a': "list_all
     (\<lambda>ws. has_page_setup ws \<and> (get_sheet_state ws = hidden \<or> get_sheet_state ws = very_hidden))
     (worksheets (small_workbook hidden_sheets ?m))"
    using a by (simp add: list_all_iff)
  show ?thesis
    using a a' c e
      no_visible_worksheets_fault
        [of "small_workbook hidden_sheets ?m" workbook_rel "initial_producer title_map"]
      no_visible_worksheets_fault
        [of "small_workbook visible_sheets ?m" workbook_rel "initial_producer title_map"]
    by blast
qed

subsection \<open>The sheets element of the workbook part\<close>

lemmas small_package_defs =
  small_workbook_def small_manifest_def visible_sheets_def hidden_sheets_def sheet_def
  workbook_rel_def thumbnail_rel_def app_rel_def printer_rel_def sheet1_rel_def
  sheet2_rel_def image_rel_def initial_producer_def title_map_def

lemma to_string_nat_digits:
  "to_string_nat 0 = ''0''" "to_string_nat (Suc 0) = ''1''" "to_string_nat 2 = ''2''"
  "to_string_nat 3 = ''3''" "to_string_nat 12 = ''12''"
  by code_simp+

lemma sheet_element_shape:
  "sheet_element m ws =
     [Start_element (Some spreadsheetml_xmlns) ''sheet'',
      Attribute None ''name'' (ws_title ws),
      Attribute None ''sheetId'' (to_string_nat (ws_id ws))]
     @ (if has_page_setup ws \<and> get_sheet_state ws = hidden
        then [Attribute None ''state'' ''hidden''] else [])
     @ [Attribute (Some document_relationships_xmlns) ''id'' (rel_id_or_empty m (ws_title ws)),
        End_element_of spreadsheetml_xmlns ''sheet'']"
  by (simp add: sheet_element_def state_attribute_def has_page_setup_def get_sheet_state_def
      split: option.splits sheet_state.splits)

lemma sheet_elements_count:
  "length (filter (\<lambda>e. e = Start_element (Some spreadsheetml_xmlns) ''sheet'')
             (concat (map (sheet_element m) wss))) = length wss"
  by (induction wss) (simp_all add: sheet_element_shape)

lemma populate_step_workbook_part:
  assumes t: "rel_type rel = office_document"
    and ret: "fst (populate_step wb rel s) = None"
  shows "last (destination (snd (populate_step wb rel s))) =
     (rel_target rel,
      Stream_str
        (workbook_header wb
         @ concat (map (sheet_element (sheet_title_rel_id_map s)) (worksheets wb))
         @ [End_element_of spreadsheetml_xmlns ''sheets'',
            End_element_of spreadsheetml_xmlns ''workbook'']))"
proof -
  let ?s1 = "snd (bind_serializer s)"
  obtain e s2 where w: "write_workbook wb rel ?s1 = (e, s2)"
    by (cases "write_workbook wb rel ?s1")
  have e: "e = None"
    using ret by (cases e) (simp_all add: populate_step_office_document [OF t] w)
  have bound: "serializer_ptr ?s1 < next_stream ?s1"
    by (simp add: bind_serializer_fields)
  have "streams s2 (next_stream s) =
     workbook_header wb
     @ concat (map (sheet_element (sheet_title_rel_id_map s)) (worksheets wb))
     @ [End_element_of spreadsheetml_xmlns ''sheets'',
        End_element_of spreadsheetml_xmlns ''workbook'']"
    using write_workbook_result(1) [OF w [unfolded e] bound]
    by (simp add: bind_serializer_fields)
  then show ?thesis
    by (simp add: populate_step_office_document [OF t] w e write_string_fields)
qed

text \<open>
  Claim C10. When the part written for an office document relationship is complete, its
  stream is the header of the workbook, then one \<open>sheet\<close> element per worksheet in the
  order of the workbook, then the two closing tags. A \<open>sheet\<close> element carries the
  title as \<open>name\<close>, the id as \<open>sheetId\<close> and the relationship id the title map has for the
  title; the \<open>state\<close> attribute appears only with the value \<open>hidden\<close>, and only for a
  sheet that has a page setup whose state is hidden. A very hidden sheet has no \<open>state\<close>
  attribute.
\<close>

theorem sheets_element_children:
  "(rel_type rel = office_document \<and> fst (populate_step wb rel s) = None \<longrightarrow>
      last (destination (snd (populate_step wb rel s))) =
        (rel_target rel,
         Stream_str
           (workbook_header wb
            @ concat (map (sheet_element (sheet_title_rel_id_map s)) (worksheets wb))
            @ [End_element_of spreadsheetml_xmlns ''sheets'',
               End_element_of spreadsheetml_xmlns ''workbook'']))) \<and>
   length (filter (\<lambda>e. e = Start_element (Some spreadsheetml_xmlns) ''sheet'')
             (concat (map (sheet_element m) wss))) = length wss \<and>
   sheet_element m ws =
     [Start_element (Some spreadsheetml_xmlns) ''sheet'',
      Attribute None ''name'' (ws_title ws),
      Attribute None ''sheetId'' (to_string_nat (ws_id ws))]
     @ (if has_page_setup ws \<and> get_sheet_state ws = hidden
        then [Attribute None ''state'' ''hidden''] else [])
     @ [Attribute (Some document_relationships_xmlns) ''id'' (rel_id_or_empty m (ws_title ws)),
        End_element_of spreadsheetml_xmlns ''sheet''] \<and>
   (has_page_setup ws \<and> get_sheet_state ws = very_hidden \<longrightarrow>
      (\<forall>v. Attribute None ''state'' v \<notin> set (sheet_element m ws)))"
proof (intro conjI impI)
  assume "rel_type rel = office_document \<and> fst (populate_step wb rel s) = None"
  then show "last (destination (snd (populate_step wb rel s))) =
        (rel_target rel,
         Stream_str
           (workbook_header wb
            @ concat (map (sheet_element (sheet_title_rel_id_map s)) (worksheets wb))
            @ [End_element_of spreadsheetml_xmlns ''sheets'',
               End_element_of spreadsheetml_xmlns ''workbook'']))"
    using populate_step_workbook_part by blast
next
  show "length (filter (\<lambda>e. e = Start_element (Some spreadsheetml_xmlns) ''sheet'')
             (concat (map (sheet_element m) wss))) = length wss"
    by (rule sheet_elements_count)
next
  show "sheet_element m ws =
     [Start_element (Some spreadsheetml_xmlns) ''sheet'',
      Attribute None ''name'' (ws_title ws),
      Attribute None ''sheetId'' (to_string_nat (ws_id ws))]
     @ (if has_page_setup ws \<and> get_sheet_state ws = hidden
        then [Attribute None ''state'' ''hidden''] else [])
     @ [Attribute (Some document_relationships_xmlns) ''id'' (rel_id_or_empty m (ws_title ws)),
        End_element_of spreadsheetml_xmlns ''sheet'']"
    by (rule sheet_element_shape)
next
  assume "has_page_setup ws \<and> get_sheet_state ws = very_hidden"
  then show "\<forall>v. Attribute None ''state'' v \<notin> set (sheet_element m ws)"
    by (simp add: sheet_element_shape)
qed

theorem sheets_element_children_witness:
  "rel_type workbook_rel = office_document \<and>
   fst (populate_step
          (small_workbook visible_sheets
             (small_manifest [workbook_rel, thumbnail_rel] [sheet1_rel, sheet2_rel]))
          workbook_rel (initial_producer title_map)) = None \<and>
   has_page_setup (sheet ''Sheet2'' 2 (Some \<lparr>sheet_state = very_hidden\<rparr>)) \<and>
   get_sheet_state (sheet ''Sheet2'' 2 (Some \<lparr>sheet_state = very_hidden\<rparr>)) = very_hidden \<and>
   last (destination
     (snd (populate_step
             (small_workbook visible_sheets
                (small_manifest [workbook_rel, thumbnail_rel] [sheet1_rel, sheet2_rel]))
             workbook_rel (initial_producer title_map)))) =
     (Path ''xl/workbook.xml'',
      Stream_str
        [Start_element (Some spreadsheetml_xmlns) ''workbook'',
         Namespace_decl spreadsheetml_xmlns '''',
         Namespace_decl document_relationships_xmlns ''r'',
         Start_element (Some spreadsheetml_xmlns) ''sheets'',
         Start_element (Some spreadsheetml_xmlns) ''sheet'',
         Attribute None ''name'' ''Sheet1'',
         Attribute None ''sheetId'' ''1'',
         Attribute (Some document_relationships_xmlns) ''id'' ''rId1'',
         End_element_of spreadsheetml_xmlns ''sheet'',
         Start_element (Some spreadsheetml_xmlns) ''sheet'',
         Attribute None ''name'' ''Sheet2'',
         Attribute None ''sheetId'' ''2'',
         Attribute (Some document_relationships_xmlns) ''id'' ''rId2'',
         End_element_of spreadsheetml_xmlns ''sheet'',
         End_element_of spreadsheetml_xmlns ''sheets'',
         End_element_of spreadsheetml_xmlns ''workbook'']) \<and>
   (\<forall>v. Attribute None ''state'' v
      \<notin> set (sheet_element title_map (sheet ''Sheet2'' 2 (Some \<lparr>sheet_state = very_hidden\<rparr>))))"
proof -
  let ?wb = "small_workbook visible_sheets
               (small_manifest [workbook_rel, thumbnail_rel] [sheet1_rel, sheet2_rel])"
  let ?ws = "sheet ''Sheet2'' 2 (Some \<lparr>sheet_state = very_hidden\<rparr>)"
  have t: "rel_type workbook_rel = office_document"
    by (simp add: workbook_rel_def)
  have ret: "fst (populate_step ?wb workbook_rel (initial_producer title_map)) = None"
    by (simp add: populate_step_def bind_serializer_def write_workbook_def has_page_setup_def
        get_sheet_state_def rel_id_of_title_def get_relationship_def write_relationships_def
        write_string_def emit_def workbook_header_def write_worksheet_def
        get_sheet_by_title_def small_package_defs Let_def)
  have vh: "has_page_setup ?ws \<and> get_sheet_state ?ws = very_hidden"
    by (simp add: sheet_def has_page_setup_def get_sheet_state_def)
  have ev: "workbook_header ?wb
      @ concat (map (sheet_element (sheet_title_rel_id_map (initial_producer title_map)))
                  (worksheets ?wb))
      @ [End_element_of spreadsheetml_xmlns ''sheets'',
         End_element_of spreadsheetml_xmlns ''workbook''] =
        [Start_element (Some spreadsheetml_xmlns) ''workbook'',
         Namespace_decl spreadsheetml_xmlns '''',
         Namespace_decl document_relationships_xmlns ''r'',
         Start_element (Some spreadsheetml_xmlns) ''sheets'',
         Start_element (Some spreadsheetml_xmlns) ''sheet'',
         Attribute None ''name'' ''Sheet1'',
         Attribute None ''sheetId'' ''1'',
         Attribute (Some document_relationships_xmlns) ''id'' ''rId1'',
         End_element_of spreadsheetml_xmlns ''sheet'',
         Start_element (Some spreadsheetml_xmlns) ''sheet'',
         Attribute None ''name'' ''Sheet2'',
         Attribute None ''sheetId'' ''2'',
         Attribute (Some document_relationships_xmlns) ''id'' ''rId2'',
         End_element_of spreadsheetml_xmlns ''sheet'',
         End_element_of spreadsheetml_xmlns ''sheets'',
         End_element_of spreadsheetml_xmlns ''workbook'']"
    by (simp add: workbook_header_def sheet_element_def state_attribute_def
        rel_id_or_empty_def small_package_defs to_string_nat_digits)
  have tgt: "rel_target workbook_rel = Path ''xl/workbook.xml''"
    by (simp add: workbook_rel_def)
  show ?thesis
    using t ret vh
      sheets_element_children
        [of workbook_rel ?wb "initial_producer title_map" title_map "[]" ?ws]
    by (simp add: ev tgt)
qed

subsection \<open>Relationship types without a case of their own\<close>

lemma populate_step_default:
  assumes "\<not> root_case (rel_type rel)"
  shows "populate_step wb rel s =
     (None, write_string (Stream_str []) (rel_target rel) (snd (bind_serializer s)))"
  using assms unfolding populate_step_def
  by (subst bind_serializer_eq)
    (cases "rel_type rel"; simp add: root_case_def bind_serializer_fields)

lemma children_default:
  assumes "\<not> workbook_case (rel_type child_rel)"
  shows "write_workbook_children wb (child_rel # rels) s =
     write_workbook_children wb rels
       (write_string (Stream_str []) (archive_path child_rel) (snd (bind_serializer s)))"
proof -
  have "workbook_dispatch wb (rel_type child_rel) child_rel (snd (bind_serializer s)) =
        (None, emit_all [] (snd (bind_serializer s)))"
    using assms by (simp add: workbook_dispatch_default)
  from children_step [OF this, of rels] show ?thesis by simp
qed

text \<open>
  Claim C3 says that a relationship of a type no switch names is skipped and no part is
  written for its target. The default case of the switch of \<open>populate_archive\<close> leaves
  \<^verbatim>\<open>write_document\<close> set, so the stream of the serializer bound for the relationship,
  which nothing was written to, still goes to the archive: for a package whose root has
  one relationship of type printer settings, the archive holds an entry at its target.
\<close>

theorem unknown_relationship_type_counterexample:
  "\<not> root_case (rel_type printer_rel) \<and>
   fst (populate_archive
          (small_workbook visible_sheets (small_manifest [printer_rel] []))
          (initial_producer title_map)) = None \<and>
   (rel_target printer_rel, Stream_str [])
     \<in> set (destination
         (snd (populate_archive
                 (small_workbook visible_sheets (small_manifest [printer_rel] []))
                 (initial_producer title_map))))"
  by (simp add: populate_archive_def populate_step_def bind_serializer_def
      write_content_types_def write_relationships_def write_string_def root_case_def
      small_package_defs Let_def)

text \<open>
  Claim C3, as amended. For a relationship of a type that has no case of its own, no
  generator runs and nothing is thrown, and exactly one entry is added to the archive:
  the empty stream, at the target of a relationship of the package root, and at the
  archive path of a relationship of the workbook, after which the loop goes on with the
  remaining relationships.
\<close>

theorem unknown_relationship_type_written_empty:
  "(\<not> root_case (rel_type rel) \<longrightarrow>
      fst (populate_step wb rel s) = None \<and>
      destination (snd (populate_step wb rel s)) =
        destination s @ [(rel_target rel, Stream_str [])]) \<and>
   (\<not> workbook_case (rel_type child_rel) \<longrightarrow>
      write_workbook_children wb (child_rel # rels) s =
        write_workbook_children wb rels
          (write_string (Stream_str []) (archive_path child_rel) (snd (bind_serializer s))) \<and>
      fst (write_workbook_children wb [child_rel] s) = None \<and>
      destination (snd (write_workbook_children wb [child_rel] s)) =
        destination s @ [(archive_path child_rel, Stream_str [])])"
  by (simp add: populate_step_default children_default write_string_fields
      bind_serializer_fields del: write_workbook_children.simps(2))

theorem unknown_relationship_type_written_empty_witness:
  "\<not> root_case (rel_type printer_rel) \<and>
   fst (populate_step (small_workbook visible_sheets (small_manifest [printer_rel] [image_rel]))
          printer_rel (initial_producer title_map)) = None \<and>
   destination
     (snd (populate_step (small_workbook visible_sheets (small_manifest [printer_rel] [image_rel]))
             printer_rel (initial_producer title_map))) =
     [(Path ''xl/printerSettings1.bin'', Stream_str [])] \<and>
   \<not> workbook_case (rel_type image_rel) \<and>
   fst (write_workbook_children
          (small_workbook visible_sheets (small_manifest [printer_rel] [image_rel]))
          [image_rel] (initial_producer title_map)) = None \<and>
   destination
     (snd (write_workbook_children
             (small_workbook visible_sheets (small_manifest [printer_rel] [image_rel]))
             [image_rel] (initial_producer title_map))) =
     [(Path ''/xl/media/image1.png'', Stream_str [])]"
proof -
  have r: "\<not> root_case (rel_type printer_rel)"
    by (simp add: root_case_def printer_rel_def)
  have c: "\<not> workbook_case (rel_type image_rel)"
    by (simp add: workbook_case_def image_rel_def)
  have p: "archive_path image_rel = Path ''/xl/media/image1.png''"
    by (simp add: archive_path_def append_paths_def append_path_def parent_def
        is_absolute_def image_rel_def)
  have d: "destination (initial_producer title_map) = []"
    by (simp add: initial_producer_def)
  have t: "rel_target printer_rel = Path ''xl/printerSettings1.bin''"
    by (simp add: printer_rel_def)
  show ?thesis
    using r c
      unknown_relationship_type_written_empty
        [of printer_rel "small_workbook visible_sheets (small_manifest [printer_rel] [image_rel])"
            "initial_producer title_map" image_rel "[]"]
    by (simp add: p d t write_string_fields bind_serializer_fields
        del: write_workbook_children.simps(2))
qed

subsection \<open>Relationship side files\<close>

lemma write_sheets_destination:
  "destination (snd (write_sheets wb rel wss s)) = destination s"
proof (induction wss arbitrary: s)
  case Nil
  show ?case by simp
next
  case (Cons ws wss)
  show ?case
    by (simp add: write_sheets_Cons Cons.IH destination_emit_all rel_id_of_title_fields
        split: option.splits del: write_sheets.simps)
qed

lemma write_workbook_destination:
  "\<exists>ys. destination (snd (write_workbook wb rel s)) = destination s @ ys"
  "fst (write_workbook wb rel s) = None \<Longrightarrow>
     \<exists>ys. destination (snd (write_workbook wb rel s)) =
       destination s
       @ [(rels_path (rel_target rel),
           Stream_str (relationships_stream (relationships (wb_manifest wb) (rel_target rel))))]
       @ ys"
proof -
  let ?s0 = "emit_all (workbook_header wb) s"
  let ?rels = "relationships (wb_manifest wb) (rel_target rel)"
  obtain e s1 where ws: "write_sheets wb rel (worksheets wb) ?s0 = (e, s1)"
    by (cases "write_sheets wb rel (worksheets wb) ?s0")
  have dest1: "destination s1 = destination s"
    using write_sheets_destination [of wb rel "worksheets wb" ?s0] ws
    by (simp add: destination_emit_all)
  let ?s4 = "write_relationships ?rels (rel_target rel)
               (emit_all [End_element_of spreadsheetml_xmlns ''sheets'',
                          End_element_of spreadsheetml_xmlns ''workbook''] s1)"
  have dest4: "destination ?s4 =
      destination s @ [(rels_path (rel_target rel), Stream_str (relationships_stream ?rels))]"
    by (simp add: write_relationships_def write_string_fields destination_emit_all dest1
        del: emit_all.simps)
  obtain ys where ys:
    "destination (snd (write_workbook_children wb ?rels ?s4)) = destination ?s4 @ ys"
    using children_summary [of ?s4 wb ?rels] by blast
  show "\<exists>ys. destination (snd (write_workbook wb rel s)) = destination s @ ys"
    using ys
    by (cases e)
      (simp_all add: write_workbook_unfold ws dest1 dest4 del: emit_all.simps)
  assume "fst (write_workbook wb rel s) = None"
  then have "fst (visibility_loop (worksheets wb) (0, False)) \<noteq> 0" and "e = None"
    by (cases e; simp add: write_workbook_unfold ws split: if_splits del: emit_all.simps)+
  then show "\<exists>ys. destination (snd (write_workbook wb rel s)) =
       destination s
       @ [(rels_path (rel_target rel), Stream_str (relationships_stream ?rels))] @ ys"
    using ys by (simp add: write_workbook_unfold ws dest4 del: emit_all.simps)
qed

lemma populate_step_destination:
  "\<exists>ys. destination (snd (populate_step wb rel s)) = destination s @ ys"
proof (cases "rel_type rel = office_document")
  case True
  obtain e s2 where w: "write_workbook wb rel (snd (bind_serializer s)) = (e, s2)"
    by (cases "write_workbook wb rel (snd (bind_serializer s))")
  obtain ys where "destination s2 = destination s @ ys"
    using write_workbook_destination(1) [of wb rel "snd (bind_serializer s)"] w
    by (auto simp add: bind_serializer_fields)
  then show ?thesis
    by (cases e) (simp_all add: populate_step_office_document [OF True] w write_string_fields)
next
  case False
  then show ?thesis
    unfolding populate_step_def
    by (subst bind_serializer_eq)
      (cases "rel_type rel";
        simp add: bind_serializer_fields write_string_fields destination_emit_all
          write_core_properties_def write_extended_properties_def
          write_custom_properties_def write_thumbnail_def emit_def
          del: emit_all.simps)
qed

lemma populate_loop_destination:
  "\<exists>ys. destination (snd (populate_loop wb rels s)) = destination s @ ys"
proof (induction rels arbitrary: s)
  case Nil
  show ?case by simp
next
  case (Cons rel rels)
  obtain e s1 where p: "populate_step wb rel s = (e, s1)"
    by (cases "populate_step wb rel s")
  obtain ys where ys: "destination s1 = destination s @ ys"
    using populate_step_destination [of wb rel s] p by auto
  obtain zs where "destination (snd (populate_loop wb rels s1)) = destination s1 @ zs"
    using Cons.IH by blast
  then show ?case
    using ys by (cases e) (simp_all add: p)
qed

lemma relationship_elements_count:
  "length (filter (\<lambda>e. e = Start_element (Some relationships_xmlns) ''Relationship'')
             (write_relationship_elements rs out)) =
   length (filter (\<lambda>e. e = Start_element (Some relationships_xmlns) ''Relationship'') out)
   + length rs"
  by (induction rs arbitrary: out) simp_all

lemma rels_path_root: "rels_path (Path ''/'') = Path ''_rels/.rels''"
  by (simp add: rels_path_def parent_def is_absolute_def append_path_def filename_def)

text \<open>
  Claim C6 says that a part whose relationship list is empty has no side file in the
  archive. \<open>write_relationships\<close> does not look at the length of the list, and
  \<open>populate_archive\<close> calls it for the root whatever the list is: for a manifest with no
  relationship at all the archive holds \<open>_rels/.rels\<close>, with a \<open>Relationships\<close> element
  that has no child.
\<close>

theorem rels_file_for_empty_list_counterexample:
  "relationships (wb_manifest (small_workbook visible_sheets (small_manifest [] []))) (Path ''/'')
     = [] \<and>
   (Path ''_rels/.rels'',
    Stream_str
      [Start_element (Some relationships_xmlns) ''Relationships'',
       Namespace_decl relationships_xmlns '''',
       End_element_of relationships_xmlns ''Relationships''])
     \<in> set (destination
         (snd (populate_archive (small_workbook visible_sheets (small_manifest [] []))
                 (initial_producer title_map))))"
  by (simp add: populate_archive_def write_content_types_def write_relationships_def
      write_string_def relationships_stream_def rels_path_root small_package_defs Let_def)

text \<open>
  Claim C6, as amended. \<open>write_relationships\<close> writes the side file of the part for any
  list, with one \<open>Relationship\<close> element per entry of the list. It is called for the
  package root in every assembly, right after the content types part, and for the
  workbook part whenever \<open>write_workbook\<close> returns; in both places the list may be empty.
\<close>

theorem rels_file_always_written:
  "destination (write_relationships rels part s) =
     destination s @ [(rels_path part, Stream_str (relationships_stream rels))] \<and>
   length (filter (\<lambda>e. e = Start_element (Some relationships_xmlns) ''Relationship'')
             (relationships_stream rels)) = length rels \<and>
   (\<exists>ys. destination (snd (populate_archive wb s)) =
      destination s
      @ [(Path ''[Content_Types].xml'', Stream_str (content_types_stream wb)),
         (Path ''_rels/.rels'',
          Stream_str (relationships_stream (relationships (wb_manifest wb) (Path ''/''))))]
      @ ys) \<and>
   (fst (write_workbook wb rel s) = None \<longrightarrow>
      (\<exists>ys. destination (snd (write_workbook wb rel s)) =
         destination s
         @ [(rels_path (rel_target rel),
             Stream_str (relationships_stream
               (relationships (wb_manifest wb) (rel_target rel))))]
         @ ys))"
proof (intro conjI impI)
  show "destination (write_relationships rels part s) =
     destination s @ [(rels_path part, Stream_str (relationships_stream rels))]"
    by (simp add: write_relationships_def write_string_fields)
  show "length (filter (\<lambda>e. e = Start_element (Some relationships_xmlns) ''Relationship'')
             (relationships_stream rels)) = length rels"
    by (simp add: relationships_stream_def relationship_elements_count)
  let ?root_rels = "relationships (wb_manifest wb) (Path ''/'')"
  let ?s2 = "write_relationships ?root_rels (Path ''/'') (write_content_types wb s)"
  obtain ys where "destination (snd (populate_loop wb ?root_rels ?s2)) = destination ?s2 @ ys"
    using populate_loop_destination by blast
  then show "\<exists>ys. destination (snd (populate_archive wb s)) =
      destination s
      @ [(Path ''[Content_Types].xml'', Stream_str (content_types_stream wb)),
         (Path ''_rels/.rels'', Stream_str (relationships_stream ?root_rels))]
      @ ys"
    by (simp add: populate_archive_def Let_def write_relationships_def write_content_types_def
        write_string_fields rels_path_root)
next
  assume "fst (write_workbook wb rel s) = None"
  then show "\<exists>ys. destination (snd (write_workbook wb rel s)) =
         destination s
         @ [(rels_path (rel_target rel),
             Stream_str (relationships_stream
               (relationships (wb_manifest wb) (rel_target rel))))]
         @ ys"
    by (rule write_workbook_destination(2))
qed

theorem rels_file_always_written_witness:
  "fst (write_workbook
          (small_workbook visible_sheets (small_manifest [workbook_rel, thumbnail_rel] []))
          workbook_rel (initial_producer title_map)) = None \<and>
   relationships
     (wb_manifest (small_workbook visible_sheets (small_manifest [workbook_rel, thumbnail_rel] [])))
     (rel_target workbook_rel) = [] \<and>
   (\<exists>ys. destination
      (snd (write_workbook
              (small_workbook visible_sheets (small_manifest [workbook_rel, thumbnail_rel] []))
              workbook_rel (initial_producer title_map))) =
      [(Path ''xl/_rels/workbook.xml.rels'',
        Stream_str
          [Start_element (Some relationships_xmlns) ''Relationships'',
           Namespace_decl relationships_xmlns '''',
           End_element_of relationships_xmlns ''Relationships''])]
      @ ys)"
proof -
  let ?wb = "small_workbook visible_sheets (small_manifest [workbook_rel, thumbnail_rel] [])"
  have ret: "fst (write_workbook ?wb workbook_rel (initial_producer title_map)) = None"
    by (simp add: write_workbook_def has_page_setup_def get_sheet_state_def
        rel_id_of_title_def get_relationship_def write_relationships_def write_string_def
        emit_def workbook_header_def small_package_defs Let_def)
  have rels: "relationships (wb_manifest ?wb) (rel_target workbook_rel) = []"
    by (simp add: small_package_defs)
  have path: "rels_path (rel_target workbook_rel) = Path ''xl/_rels/workbook.xml.rels''"
    by (simp add: rels_path_def parent_def is_absolute_def append_path_def filename_def
        workbook_rel_def)
  have d: "destination (initial_producer title_map) = []"
    by (simp add: initial_producer_def)
  have str: "relationships_stream [] =
      [Start_element (Some relationships_xmlns) ''Relationships'',
       Namespace_decl relationships_xmlns '''',
       End_element_of relationships_xmlns ''Relationships'']"
    by (simp add: relationships_stream_def)
  show ?thesis
    using ret
      rels_file_always_written
        [of "[]" "Path ''/''" "initial_producer title_map" ?wb workbook_rel]
    by (simp add: rels path d str)
qed

subsection \<open>The content types part\<close>

lemma write_defaults_concat:
  "write_defaults m extensions out = out @ concat (map (default_element m) extensions)"
  by (induction extensions arbitrary: out) (simp_all add: default_element_def)

lemma write_overrides_concat:
  "write_overrides m parts out = out @ concat (map (override_element m) parts)"
  by (induction parts arbitrary: out) (simp_all add: override_element_def)

text \<open>
  Claim C5. The stream written to \<open>[Content_Types].xml\<close> is the opening of \<open>Types\<close>, one
  \<open>Default\<close> element per extension with a default type, then one \<open>Override\<close> element per
  part with an overridden type, then the closing tag: every \<open>Default\<close> stands before
  every \<open>Override\<close>, and each group keeps the order in which the manifest lists its
  extensions and parts.
\<close>

theorem content_types_defaults_then_overrides:
  "content_types_stream wb =
     [Start_element (Some content_types_xmlns) ''Types'',
      Namespace_decl content_types_xmlns '''']
     @ concat (map (default_element (wb_manifest wb))
                 (extensions_with_default_types (wb_manifest wb)))
     @ concat (map (override_element (wb_manifest wb))
                 (parts_with_overriden_types (wb_manifest wb)))
     @ [End_element_of content_types_xmlns ''Types''] \<and>
   destination (write_content_types wb s) =
     destination s @ [(Path ''[Content_Types].xml'', Stream_str (content_types_stream wb))] \<and>
   [n. Start_element ns n \<leftarrow> content_types_stream wb] =
     ''Types'' # replicate (length (extensions_with_default_types (wb_manifest wb))) ''Default''
     @ replicate (length (parts_with_overriden_types (wb_manifest wb))) ''Override'' \<and>
   [v. Attribute ns n v \<leftarrow> content_types_stream wb, n = ''Extension''] =
     extensions_with_default_types (wb_manifest wb) \<and>
   [v. Attribute ns n v \<leftarrow> content_types_stream wb, n = ''PartName''] =
     map (\<lambda>part. path_string (resolve part (Path ''/'')))
       (parts_with_overriden_types (wb_manifest wb))"
proof -
  let ?m = "wb_manifest wb"
  have shape: "content_types_stream wb =
     [Start_element (Some content_types_xmlns) ''Types'',
      Namespace_decl content_types_xmlns '''']
     @ concat (map (default_element ?m) (extensions_with_default_types ?m))
     @ concat (map (override_element ?m) (parts_with_overriden_types ?m))
     @ [End_element_of content_types_xmlns ''Types'']"
    by (simp add: content_types_stream_def Let_def write_defaults_concat
        write_overrides_concat)
  have d1: "\<And>xs. [n. Start_element ns n \<leftarrow> concat (map (default_element ?m) xs)] =
      replicate (length xs) ''Default''"
    subgoal for xs by (induction xs) (simp_all add: default_element_def)
    done
  have o1: "\<And>xs. [n. Start_element ns n \<leftarrow> concat (map (override_element ?m) xs)] =
      replicate (length xs) ''Override''"
    subgoal for xs by (induction xs) (simp_all add: override_element_def)
    done
  have d2: "\<And>xs. [v. Attribute ns n v \<leftarrow> concat (map (default_element ?m) xs),
                      n = ''Extension''] = xs"
    subgoal for xs by (induction xs) (simp_all add: default_element_def)
    done
  have o2: "\<And>xs. [v. Attribute ns n v \<leftarrow> concat (map (override_element ?m) xs),
                      n = ''Extension''] = []"
    subgoal for xs by (induction xs) (simp_all add: override_element_def)
    done
  have d3: "\<And>xs. [v. Attribute ns n v \<leftarrow> concat (map (default_element ?m) xs),
                      n = ''PartName''] = []"
    subgoal for xs by (induction xs) (simp_all add: default_element_def)
    done
  have o3: "\<And>xs. [v. Attribute ns n v \<leftarrow> concat (map (override_element ?m) xs),
                      n = ''PartName''] = map (\<lambda>part. path_string (resolve part (Path ''/''))) xs"
    subgoal for xs by (induction xs) (simp_all add: override_element_def)
    done
  show ?thesis
    unfolding shape
    by (simp add: d1 o1 d2 o2 d3 o3 write_content_types_def write_string_fields shape)
qed

subsection \<open>Archive paths and side file paths\<close>

lemma children_paths:
  "fst (write_workbook_children wb rels s) = None \<Longrightarrow>
     map fst (destination (snd (write_workbook_children wb rels s))) =
       map fst (destination s) @ map archive_path rels"
proof (induction rels arbitrary: s)
  case Nil
  show ?case by simp
next
  case (Cons child_rel rels)
  let ?s1 = "snd (bind_serializer s)"
  obtain es where es:
    "snd (workbook_dispatch wb (rel_type child_rel) child_rel ?s1) = emit_all es ?s1"
    using workbook_dispatch_emits by blast
  obtain e where e: "fst (workbook_dispatch wb (rel_type child_rel) child_rel ?s1) = e"
    by simp
  have d: "workbook_dispatch wb (rel_type child_rel) child_rel ?s1 = (e, emit_all es ?s1)"
    using es e by (metis prod.collapse)
  note step = children_step [OF d, of rels]
  let ?s3 = "write_string (Stream_str es) (archive_path child_rel) (emit_all es ?s1)"
  have none: "e = None"
    using Cons.prems by (cases e) (simp_all add: step del: write_workbook_children.simps)
  then have rest: "fst (write_workbook_children wb rels ?s3) = None"
    using Cons.prems by (simp add: step del: write_workbook_children.simps emit_all.simps)
  have d3: "destination ?s3 = destination s @ [(archive_path child_rel, Stream_str es)]"
    by (simp add: write_string_fields destination_emit_all bind_serializer_fields)
  show ?case
    using Cons.IH [OF rest]
    by (simp add: step none d3 del: write_workbook_children.simps emit_all.simps)
qed

lemma populate_step_last_path:
  assumes "fst (populate_step wb rel s) = None"
  shows "fst (last (destination (snd (populate_step wb rel s)))) = rel_target rel"
proof (cases "rel_type rel = office_document")
  case True
  obtain e s2 where w: "write_workbook wb rel (snd (bind_serializer s)) = (e, s2)"
    by (cases "write_workbook wb rel (snd (bind_serializer s))")
  have "e = None"
    using assms by (cases e) (simp_all add: populate_step_office_document [OF True] w)
  then show ?thesis
    by (simp add: populate_step_office_document [OF True] w write_string_fields)
next
  case False
  then show ?thesis
    unfolding populate_step_def
    by (subst bind_serializer_eq)
      (cases "rel_type rel"; simp add: write_string_fields write_thumbnail_def)
qed

lemma append_path_drop:
  "append_path (Path r) x =
     Path (drop (Suc 0) (path_string (append_path (Path (CHR ''/'' # r)) x)))"
  by (cases r rule: rev_cases) (simp_all add: append_path_def Let_def)

lemma append_path_absolute:
  "\<exists>r'. append_path (Path (CHR ''/'' # r)) x = Path (CHR ''/'' # r')"
  by (simp add: append_path_def Let_def)

lemma rels_path_spec:
  "path_string (rels_path part) =
     (if is_absolute (parent part) then drop 1 (path_string (spec_rels_path part))
      else path_string (spec_rels_path part))"
proof (cases "is_absolute (parent part)")
  case False
  then show ?thesis by (simp add: rels_path_def spec_rels_path_def)
next
  case True
  obtain b where b: "parent part = Path b"
    by (cases "parent part")
  obtain r where r: "b = CHR ''/'' # r"
    using True b by (auto simp add: is_absolute_def split: list.splits)
  obtain r' where r': "append_path (Path (CHR ''/'' # r)) ''_rels'' = Path (CHR ''/'' # r')"
    using append_path_absolute by blast
  have first: "append_path (Path r) ''_rels'' = Path r'"
    using append_path_drop [of r "''_rels''"] by (simp add: r')
  have "path_string (rels_path part) =
      path_string (append_path (Path r') (filename part @ ''.rels''))"
    using True by (simp add: rels_path_def b r first)
  also have "\<dots> = drop (Suc 0) (path_string
      (append_path (Path (CHR ''/'' # r')) (filename part @ ''.rels'')))"
    using append_path_drop [of r' "filename part @ ''.rels''"] by simp
  finally show ?thesis
    using True by (simp add: spec_rels_path_def b r r')
qed

lemma archive_path_example:
  "rel_source child_rel = Path ''/xl/workbook.xml'' \<Longrightarrow>
   rel_target child_rel = Path ''worksheets/sheet1.xml'' \<Longrightarrow>
   archive_path child_rel = Path ''/xl/worksheets/sheet1.xml''"
  by (simp add: archive_path_def append_paths_def append_path_def parent_def is_absolute_def)

lemma rels_path_example:
  "rels_path (Path ''/xl/workbook.xml'') = Path ''xl/_rels/workbook.xml.rels''"
  by (simp add: rels_path_def parent_def is_absolute_def append_path_def filename_def)




subsection \<open>String cells and the shared string table\<close>

lemma static_cast_int_small: "i < 2 ^ 31 \<Longrightarrow> static_cast_int i = int i"
proof -
  assume b: "i < 2 ^ 31"
  have "static_cast_int i = signed_take_bit 31 (int i)"
    using sint_sbintrunc' [where 'a = 32, of "int i"] by (simp add: static_cast_int_def)
  also have "\<dots> = int i"
    using b by (intro signed_take_bit_int_eq_self) simp_all
  finally show ?thesis .
qed

lemma match_loop_miss: "v \<notin> set xs \<Longrightarrow> match_loop xs v i = - 1"
  by (induction xs arbitrary: i) auto

lemma match_loop_first:
  "k < length xs \<Longrightarrow> xs ! k = v \<Longrightarrow> \<forall>j < k. xs ! j \<noteq> v \<Longrightarrow>
     match_loop xs v i = static_cast_int (i + k)"
proof (induction xs arbitrary: i k)
  case Nil
  then show ?case by simp
next
  case (Cons x xs)
  show ?case
  proof (cases k)
    case 0
    then show ?thesis using Cons.prems by simp
  next
    case (Suc k')
    have "x \<noteq> v"
      using Cons.prems(3) Suc by auto
    moreover have "match_loop xs v (Suc i) = static_cast_int (Suc i + k')"
      using Cons.prems Suc by (intro Cons.IH) auto
    ultimately show ?thesis
      using Suc by simp
  qed
qed




subsection \<open>How booleans are rendered\<close>

lemma write_extended_properties_stream:
  "streams (write_extended_properties wb rel s) (serializer_ptr s) =
     streams s (serializer_ptr s)
     @ [Start_element None ''Properties'',
        Namespace_decl
          ''http://schemas.openxmlformats.org/officeDocument/2006/extended-properties''
          ''xmlns'',
        Namespace_decl
          ''http://schemas.openxmlformats.org/officeDocument/2006/docPropsVTypes'' ''vt'',
        Element ''Application'' (wb_application wb),
        Element ''DocSecurity'' (to_string_int (wb_doc_security wb)),
        Element ''ScaleCrop'' (if wb_scale_crop wb then ''true'' else ''false'')]"
  unfolding write_extended_properties_def by (simp only: streams_emit_all fun_upd_same)

lemma populate_step_extended_properties:
  assumes "rel_type rel = extended_properties"
  shows "populate_step wb rel s =
     (None,
      write_string
        (Stream_str
           [Start_element None ''Properties'',
            Namespace_decl
              ''http://schemas.openxmlformats.org/officeDocument/2006/extended-properties''
              ''xmlns'',
            Namespace_decl
              ''http://schemas.openxmlformats.org/officeDocument/2006/docPropsVTypes'' ''vt'',
            Element ''Application'' (wb_application wb),
            Element ''DocSecurity'' (to_string_int (wb_doc_security wb)),
            Element ''ScaleCrop'' (if wb_scale_crop wb then ''true'' else ''false'')])
        (rel_target rel)
        (write_extended_properties wb rel (snd (bind_serializer s))))"
proof -
  have "streams (write_extended_properties wb rel (snd (bind_serializer s))) (next_stream s) =
      [Start_element None ''Properties'',
       Namespace_decl
         ''http://schemas.openxmlformats.org/officeDocument/2006/extended-properties''
         ''xmlns'',
       Namespace_decl
         ''http://schemas.openxmlformats.org/officeDocument/2006/docPropsVTypes'' ''vt'',
       Element ''Application'' (wb_application wb),
       Element ''DocSecurity'' (to_string_int (wb_doc_security wb)),
       Element ''ScaleCrop'' (if wb_scale_crop wb then ''true'' else ''false'')]"
    using write_extended_properties_stream [of wb rel "snd (bind_serializer s)"]
    by (simp add: bind_serializer_fields)
  then show ?thesis
    unfolding populate_step_def
    by (subst bind_serializer_eq) (simp add: assms)
qed



end
